theory Spec2Isabelle
  imports Main "HOL-Library.Sublist"
begin

section \<open>Python strings\<close>

text \<open>
  A Python \<open>str\<close> is modelled as a \<open>string\<close> whose characters are code points below 256.
  The functions below are the built-in string operations that the token verifier uses.
\<close>

text \<open>\<open>str.isspace\<close> on one character: the white space that \<open>str.strip()\<close> removes.\<close>

definition py_isspace :: "char \<Rightarrow> bool" where
  "py_isspace c =
     (let n = (of_char c :: nat)
      in (9 \<le> n \<and> n \<le> 13) \<or> (28 \<le> n \<and> n \<le> 32) \<or> n = 133 \<or> n = 160)"

text \<open>\<open>s.strip()\<close>\<close>

definition py_strip :: "string \<Rightarrow> string" where
  "py_strip s = rev (dropWhile py_isspace (rev (dropWhile py_isspace s)))"

text \<open>\<open>s.lower()\<close>, character by character.\<close>

definition py_lower_char :: "char \<Rightarrow> char" where
  "py_lower_char c =
     (let n = (of_char c :: nat)
      in if (65 \<le> n \<and> n \<le> 90) \<or> (192 \<le> n \<and> n \<le> 222 \<and> n \<noteq> 215)
         then char_of (n + 32) else c)"

definition py_lower :: "string \<Rightarrow> string" where
  "py_lower s = map py_lower_char s"

text \<open>\<open>needle in hay\<close> on strings.\<close>

fun py_contains :: "string \<Rightarrow> string \<Rightarrow> bool" where
  "py_contains needle [] = (needle = [])"
| "py_contains needle (c # cs) = (prefix needle (c # cs) \<or> py_contains needle cs)"

text \<open>
  \<open>s.split(sep)\<close> for a separator that is not empty: the pieces between the occurrences
  of \<open>sep\<close>, found from the left and not overlapping. (Python raises \<open>ValueError\<close> on an
  empty separator; the source only splits on \<open>', '\<close>, and the model returns the string
  whole there.)
\<close>

function py_split :: "string \<Rightarrow> string \<Rightarrow> string list" where
  "py_split sep [] = [[]]"
| "py_split sep (c # cs) =
     (if sep \<noteq> [] \<and> prefix sep (c # cs)
      then [] # py_split sep (drop (length sep) (c # cs))
      else (let r = py_split sep cs in (c # hd r) # tl r))"
  by pat_completeness auto
termination
  by (relation "measure (\<lambda>(sep, s). length s)") auto

text \<open>\<open>str(n)\<close> for an integer: its decimal digits.\<close>

fun str_nat :: "nat \<Rightarrow> string" where
  "str_nat n =
     (if n < 10 then [char_of (48 + n)]
      else str_nat (n div 10) @ [char_of (48 + n mod 10)])"

declare str_nat.simps [simp del]

definition str_int :: "int \<Rightarrow> string" where
  "str_int i = (if i < 0 then CHR ''-'' # str_nat (nat (- i)) else str_nat (nat i))"

text \<open>
  \<open>str(b)\<close> for a Boolean, \<open>repr(s)\<close> for a string and \<open>str(xs)\<close> for a list of strings,
  as an f-string interpolates them.
\<close>

definition py_str_bool :: "bool \<Rightarrow> string" where
  "py_str_bool b = (if b then ''True'' else ''False'')"

definition hex_digit :: "nat \<Rightarrow> char" where
  "hex_digit n = ''0123456789abcdef'' ! n"

definition py_printable :: "char \<Rightarrow> bool" where
  "py_printable c =
     (let n = (of_char c :: nat)
      in (32 \<le> n \<and> n < 127) \<or> (161 \<le> n \<and> n \<noteq> 173))"

definition repr_char :: "char \<Rightarrow> char \<Rightarrow> string" where
  "repr_char quote c =
     (let n = (of_char c :: nat)
      in if c = quote \<or> c = CHR 0x5C then [CHR 0x5C, c]
         else if n = 9 then [CHR 0x5C, CHR ''t'']
         else if n = 10 then [CHR 0x5C, CHR ''n'']
         else if n = 13 then [CHR 0x5C, CHR ''r'']
         else if \<not> py_printable c
           then [CHR 0x5C, CHR ''x'', hex_digit (n div 16), hex_digit (n mod 16)]
         else [c])"

definition py_repr_str :: "string \<Rightarrow> string" where
  "py_repr_str s =
     (let quote = (if CHR 0x27 \<in> set s \<and> CHR 0x22 \<notin> set s then CHR 0x22 else CHR 0x27)
      in quote # concat (map (repr_char quote) s) @ [quote])"

fun py_join :: "string \<Rightarrow> string list \<Rightarrow> string" where
  "py_join sep [] = []"
| "py_join sep [x] = x"
| "py_join sep (x # y # ys) = x @ sep @ py_join sep (y # ys)"

definition py_str_list :: "string list \<Rightarrow> string" where
  "py_str_list xs = ''['' @ py_join '', '' (map py_repr_str xs) @ '']''"

section \<open>Exceptions and decoded JSON values\<close>

text \<open>
  The exceptions that the code distinguishes, each with the text \<open>str(e)\<close> that the
  handlers interpolate. \<open>Timeout\<close> is \<open>requests.exceptions.Timeout\<close> (a connect timeout or a
  read timeout), \<open>ConnectionError\<close> the class of that name in \<open>requests.exceptions\<close>; both
  are subclasses of \<open>requests.exceptions.RequestException\<close>, and \<open>RequestException\<close> stands
  for every other exception of that class but the next. \<open>JSONDecodeError\<close> is
  \<open>json.JSONDecodeError\<close>, and \<open>RequestsJSONDecodeError\<close> the class of the same name in
  \<open>requests.exceptions\<close>, which is a \<open>json.JSONDecodeError\<close> and a \<open>RequestException\<close> at
  once. \<open>OtherException\<close> stands for every exception that is none of the others.
\<close>

datatype exn =
    Timeout string
  | ConnectionError string
  | RequestException string
  | JSONDecodeError string
  | RequestsJSONDecodeError string
  | AttributeError string
  | ValueError string
  | KeyError string
  | RecursionError string
  | OtherException string

fun exn_str :: "exn \<Rightarrow> string" where
  "exn_str (Timeout m) = m"
| "exn_str (ConnectionError m) = m"
| "exn_str (RequestException m) = m"
| "exn_str (JSONDecodeError m) = m"
| "exn_str (RequestsJSONDecodeError m) = m"
| "exn_str (AttributeError m) = m"
| "exn_str (ValueError m) = m"
| "exn_str (KeyError m) = m"
| "exn_str (RecursionError m) = m"
| "exn_str (OtherException m) = m"

fun is_Timeout :: "exn \<Rightarrow> bool" where
  "is_Timeout (Timeout m) = True"
| "is_Timeout e = False"

fun is_RequestException :: "exn \<Rightarrow> bool" where
  "is_RequestException (Timeout m) = True"
| "is_RequestException (ConnectionError m) = True"
| "is_RequestException (RequestException m) = True"
| "is_RequestException (RequestsJSONDecodeError m) = True"
| "is_RequestException e = False"

fun is_JSONDecodeError :: "exn \<Rightarrow> bool" where
  "is_JSONDecodeError (JSONDecodeError m) = True"
| "is_JSONDecodeError (RequestsJSONDecodeError m) = True"
| "is_JSONDecodeError e = False"

text \<open>
  What \<open>response.json()\<close> returns: a decoded JSON value. \<open>JDict\<close> holds the items of the
  decoded dictionary, each key once; \<open>JFloat\<close> holds a number that is not an integer by its
  text.
\<close>

datatype json =
    JNull
  | JBool bool
  | JInt int
  | JFloat string
  | JStr string
  | JList "json list"
  | JDict "(string \<times> json) list"

fun py_type_name :: "json \<Rightarrow> string" where
  "py_type_name JNull = ''NoneType''"
| "py_type_name (JBool b) = ''bool''"
| "py_type_name (JInt i) = ''int''"
| "py_type_name (JFloat f) = ''float''"
| "py_type_name (JStr s) = ''str''"
| "py_type_name (JList xs) = ''list''"
| "py_type_name (JDict kvs) = ''dict''"

definition no_attribute :: "json \<Rightarrow> string \<Rightarrow> exn" where
  "no_attribute v attr =
     AttributeError ([CHR 0x27] @ py_type_name v @ [CHR 0x27] @ '' object has no attribute ''
                     @ [CHR 0x27] @ attr @ [CHR 0x27])"

text \<open>
  \<open>d.get(key, default)\<close> on a decoded value: only a dictionary has the method, every other
  value raises \<open>AttributeError\<close>.
\<close>

fun dict_get :: "json \<Rightarrow> string \<Rightarrow> json \<Rightarrow> exn + json" where
  "dict_get (JDict kvs) k d = Inr (case map_of kvs k of None \<Rightarrow> d | Some v \<Rightarrow> v)"
| "dict_get v k d = Inl (no_attribute v ''get'')"

text \<open>
  A value interpolated into an f-string: a string stands for itself; Python's rendering
  of every other value is the parameter \<open>fmt\<close>.
\<close>

fun format_value :: "(json \<Rightarrow> string) \<Rightarrow> json \<Rightarrow> string" where
  "format_value fmt (JStr s) = s"
| "format_value fmt v = fmt v"

section \<open>The outside world\<close>

text \<open>
  The response of \<open>requests.get\<close>. The headers are a case-insensitive dictionary, kept
  here as a map from the lower-cased header names. \<open>resp_json\<close> is what \<open>response.json()\<close>
  does: it returns the decoded value or raises. On a body that is not JSON it raises a
  JSON decode error; the decoder can also raise something else (a \<open>RecursionError\<close> on a
  deeply nested body, a plain \<open>ValueError\<close> on an overlong number).
\<close>

record response =
  resp_status_code :: int
  resp_headers :: "string \<rightharpoonup> string"
  resp_text :: string
  resp_json :: "exn + json"

definition headers_get :: "(string \<rightharpoonup> string) \<Rightarrow> string \<Rightarrow> string \<Rightarrow> string" where
  "headers_get h k d = (case h (py_lower k) of None \<Rightarrow> d | Some v \<Rightarrow> v)"

text \<open>
  What happens to a request on the network: the response arrives with its body; or the
  connection is not made within the timeout; or the server sends nothing of the response
  within the timeout; or the response starts and the timeout passes while its body is
  read; or the request fails otherwise, with an exception.
\<close>

datatype transport =
    Responded response
  | ConnectTimedOut string
  | ReadTimedOut string
  | BodyReadTimedOut string
  | Failed exn

text \<open>
  What \<open>requests.get\<close> makes of it: the first two timeouts are raised as \<open>ConnectTimeout\<close>
  and \<open>ReadTimeout\<close>, both of the class \<open>Timeout\<close>; a read timeout while the body is read
  is raised by the library as \<open>ConnectionError\<close>.
\<close>

fun raised_or_returned :: "transport \<Rightarrow> exn + response" where
  "raised_or_returned (Responded r) = Inr r"
| "raised_or_returned (ConnectTimedOut m) = Inl (Timeout m)"
| "raised_or_returned (ReadTimedOut m) = Inl (Timeout m)"
| "raised_or_returned (BodyReadTimedOut m) = Inl (ConnectionError m)"
| "raised_or_returned (Failed e) = Inl e"

text \<open>
  A chat prompt as it reaches the model: the system message and the human message.
\<close>

record chat_prompt =
  system_message :: string
  human_message :: string

text \<open>
  The nodes build their prompt with \<open>ChatPromptTemplate.from_messages\<close> from a text in
  which the values are already interpolated, and the library reads that text as an
  f-string template once more. \<open>Rejected e\<close>: \<open>from_messages\<close> raises \<open>e\<close> (a \<open>ValueError\<close> on
  a brace without its partner). \<open>Unfilled e\<close>: the template is built, and \<open>invoke\<close> raises
  \<open>e\<close> before the model is called, because the template names a variable that the input
  \<open>{"input": ""}\<close> does not give. \<open>Filled t\<close>: the template is built and filled, and \<open>t\<close> is the
  text sent to the model.
\<close>

datatype template_result = Rejected exn | Unfilled exn | Filled string

text \<open>
  The external calls of a run, in order, and the world that answers them: the GitHub API
  (by URL and request headers), the chat model (by prompt), what the template library makes
  of a text with braces, and the log of the calls made.
\<close>

datatype call = HttpGet string "(string \<times> string) list" | ChatInvoke chat_prompt

record world =
  github_api :: "string \<Rightarrow> (string \<times> string) list \<Rightarrow> transport"
  llm :: "chat_prompt \<Rightarrow> exn + string"
  templates :: "string \<Rightarrow> template_result"
  calls :: "call list"

text \<open>
  \<open>requests.get(url, headers=headers, timeout=10)\<close>: the response, or the exception raised.
\<close>

definition requests_get ::
  "string \<Rightarrow> (string \<times> string) list \<Rightarrow> world \<Rightarrow> (exn + response) \<times> world" where
  "requests_get url hdrs w =
     (raised_or_returned (github_api w url hdrs), w\<lparr>calls := calls w @ [HttpGet url hdrs]\<rparr>)"

text \<open>
  The template of a text: a text without a brace is its own template and is filled to
  itself; for a text with a brace the library decides.
\<close>

definition has_brace :: "string \<Rightarrow> bool" where
  "has_brace s = (CHR 0x7B \<in> set s \<or> CHR 0x7D \<in> set s)"

definition prompt_template :: "world \<Rightarrow> string \<Rightarrow> template_result" where
  "prompt_template w text = (if has_brace text then templates w text else Filled text)"

text \<open>The call of the model inside \<open>chain.invoke\<close>, and the \<open>.content\<close> of its reply.\<close>

definition chain_invoke :: "chat_prompt \<Rightarrow> world \<Rightarrow> (exn + string) \<times> world" where
  "chain_invoke p w = (llm w p, w\<lparr>calls := calls w @ [ChatInvoke p]\<rparr>)"

section \<open>The token verifier (tools/github\_verifier.py)\<close>

text \<open>
  The result dictionary. \<open>scopes\<close> is \<open>None\<close> when the dictionary has no such key.
  \<open>json.dumps\<close> followed by \<open>json.loads\<close> gives the same dictionary back, so the JSON
  string between the tool and its caller is left out.
\<close>

record vresult =
  valid :: bool
  scopes :: "string list option"
  message :: string
  status_code :: int

text \<open>
  \<open>scopes = header.split(', ')\<close> and \<open>[s.strip() for s in scopes if s.strip()]\<close>
\<close>

definition parse_scopes :: "string \<Rightarrow> string list" where
  "parse_scopes header =
     map py_strip (filter (\<lambda>s. py_strip s \<noteq> []) (py_split '', '' header))"

text \<open>
  The inner \<open>try\<close>: the decoded body; on a \<open>json.JSONDecodeError\<close> a dictionary holding the
  first 200 characters of the text; any other exception of \<open>response.json()\<close> passes the
  inner handler.
\<close>

definition response_data_of :: "response \<Rightarrow> exn + json" where
  "response_data_of r =
     (case resp_json r of
        Inr j \<Rightarrow> Inr j
      | Inl e \<Rightarrow>
          if is_JSONDecodeError e then
            Inr (JDict [(''message'',
                         JStr (if resp_text r \<noteq> [] then take 200 (resp_text r) @ ''...''
                               else ''No JSON response body''))])
          else Inl e)"

text \<open>The message of the 403 branch; \<open>message.lower()\<close> needs a string.\<close>

definition forbidden_message :: "json \<Rightarrow> exn + string" where
  "forbidden_message m =
     (case m of
        JStr s \<Rightarrow>
          Inr (if py_contains ''rate limit'' (py_lower s)
               then ''Rate limit exceeded or forbidden: '' @ s
               else if py_contains ''resource not accessible by integration'' (py_lower s)
                       \<or> py_contains ''requires authentication'' (py_lower s)
               then ''Token forbidden or insufficient permissions: '' @ s
               else s)
      | _ \<Rightarrow> Inl (no_attribute m ''lower''))"

text \<open>The body of the outer \<open>try\<close>, after \<open>requests.get\<close> has returned a response.\<close>

definition classify_response :: "(json \<Rightarrow> string) \<Rightarrow> response \<Rightarrow> exn + vresult" where
  "classify_response fmt r =
     (case response_data_of r of
        Inl e \<Rightarrow> Inl e
      | Inr response_data \<Rightarrow>
          if resp_status_code r = 200 then
            Inr \<lparr>valid = True,
                 scopes = Some (parse_scopes
                                  (headers_get (resp_headers r) ''X-OAuth-Scopes'' [])),
                 message = ''Token is valid.'',
                 status_code = resp_status_code r\<rparr>
          else if resp_status_code r = 401 then
            (case dict_get response_data ''message'' (JStr ''Bad credentials'') of
               Inl e \<Rightarrow> Inl e
             | Inr m \<Rightarrow>
                 Inr \<lparr>valid = False, scopes = Some [],
                      message = ''Token is invalid or expired: '' @ format_value fmt m,
                      status_code = resp_status_code r\<rparr>)
          else if resp_status_code r = 403 then
            (case dict_get response_data ''message'' (JStr ''Access Forbidden.'') of
               Inl e \<Rightarrow> Inl e
             | Inr m \<Rightarrow>
                 (case forbidden_message m of
                    Inl e \<Rightarrow> Inl e
                  | Inr msg \<Rightarrow>
                      Inr \<lparr>valid = False, scopes = Some [], message = msg,
                           status_code = resp_status_code r\<rparr>))
          else
            (case dict_get response_data ''message'' (JStr ''No message'') of
               Inl e \<Rightarrow> Inl e
             | Inr m \<Rightarrow>
                 Inr \<lparr>valid = False, scopes = Some [],
                      message = ''Unexpected API response (Status: ''
                                @ str_int (resp_status_code r) @ ''): '' @ format_value fmt m,
                      status_code = resp_status_code r\<rparr>))"

text \<open>
  The three \<open>except\<close> clauses of the outer \<open>try\<close>, in the order of the source: the first
  clause whose class the exception has runs.
\<close>

definition verifier_except :: "exn \<Rightarrow> vresult" where
  "verifier_except e =
     (if is_Timeout e then
        \<lparr>valid = False, scopes = Some [],
         message = ''Request timed out when connecting to GitHub API.'',
         status_code = - 1\<rparr>
      else if is_RequestException e then
        \<lparr>valid = False, scopes = Some [],
         message = ''Network or API request error: '' @ exn_str e,
         status_code = - 2\<rparr>
      else
        \<lparr>valid = False, scopes = Some [],
         message = ''An unexpected error occurred during tool execution: '' @ exn_str e,
         status_code = - 99\<rparr>)"

definition verify_github_token_api ::
  "(json \<Rightarrow> string) \<Rightarrow> string \<Rightarrow> world \<Rightarrow> (exn + vresult) \<times> world" where
  "verify_github_token_api fmt tok w =
     (let api_url = ''https://api.github.com/user'';
          headers = [(''Authorization'', ''token '' @ tok),
                     (''Accept'', ''application/vnd.github.v3+json'')];
          (got, w') = requests_get api_url headers w;
          tried = (case got of Inl e \<Rightarrow> Inl e | Inr response \<Rightarrow> classify_response fmt response);
          result = (case tried of Inl e \<Rightarrow> verifier_except e | Inr r \<Rightarrow> r)
      in (Inr result, w'))"

section \<open>The second verifier (verify.py)\<close>

text \<open>
  \<open>verify_github_token_tool\<close> decodes the body inside the one \<open>try\<close>, so whatever
  \<open>response.json()\<close> raises reaches the \<open>except\<close> clauses.
\<close>

text \<open>\<open>[s for s in scopes if s]\<close>: the entries are not trimmed.\<close>

definition tool_scopes :: "string \<Rightarrow> string list" where
  "tool_scopes header = filter (\<lambda>s. s \<noteq> []) (py_split '', '' header)"

definition tool_try :: "(json \<Rightarrow> string) \<Rightarrow> response \<Rightarrow> exn + vresult" where
  "tool_try fmt r =
     (case resp_json r of
        Inl e \<Rightarrow> Inl e
      | Inr response_data \<Rightarrow>
          if resp_status_code r = 200 then
            Inr \<lparr>valid = True,
                 scopes = Some (tool_scopes (headers_get (resp_headers r) ''X-OAuth-Scopes'' [])),
                 message = ''Token is valid.'',
                 status_code = resp_status_code r\<rparr>
          else if resp_status_code r = 401 then
            (case dict_get response_data ''message'' (JStr ''Unknown error'') of
               Inl e \<Rightarrow> Inl e
             | Inr m \<Rightarrow>
                 Inr \<lparr>valid = False, scopes = Some [],
                      message = ''Token is invalid or expired: '' @ format_value fmt m,
                      status_code = resp_status_code r\<rparr>)
          else if resp_status_code r = 403 then
            (case dict_get response_data ''message'' (JStr ''Unknown error'') of
               Inl e \<Rightarrow> Inl e
             | Inr m \<Rightarrow>
                 Inr \<lparr>valid = False, scopes = Some [],
                      message =
                        ''Token access forbidden (e.g., rate limited or token permissions): ''
                        @ format_value fmt m,
                      status_code = resp_status_code r\<rparr>)
          else
            (case dict_get response_data ''message'' (JStr ''No message'') of
               Inl e \<Rightarrow> Inl e
             | Inr m \<Rightarrow>
                 Inr \<lparr>valid = False, scopes = Some [],
                      message = ''Unexpected API response (Status: ''
                                @ str_int (resp_status_code r) @ ''): '' @ format_value fmt m,
                      status_code = resp_status_code r\<rparr>))"

text \<open>The three \<open>except\<close> clauses of verify.py, in the order of the source.\<close>

definition tool_except :: "exn \<Rightarrow> vresult" where
  "tool_except e =
     (if is_RequestException e then
        \<lparr>valid = False, scopes = Some [],
         message = ''Network or API request error: '' @ exn_str e,
         status_code = - 1\<rparr>
      else if is_JSONDecodeError e then
        \<lparr>valid = False, scopes = Some [],
         message = ''JSON Decode Error: Unexpected response format from GitHub API.'',
         status_code = - 3\<rparr>
      else
        \<lparr>valid = False, scopes = Some [],
         message = ''An unexpected error occurred: '' @ exn_str e,
         status_code = - 4\<rparr>)"

definition verify_github_token_tool ::
  "(json \<Rightarrow> string) \<Rightarrow> string \<Rightarrow> world \<Rightarrow> (exn + vresult) \<times> world" where
  "verify_github_token_tool fmt tok w =
     (let api_url = ''https://api.github.com/user'';
          headers = [(''Authorization'', ''token '' @ tok),
                     (''Accept'', ''application/vnd.github.v3+json'')];
          (got, w') = requests_get api_url headers w;
          tried = (case got of Inl e \<Rightarrow> Inl e | Inr response \<Rightarrow> tool_try fmt response);
          result = (case tried of Inl e \<Rightarrow> tool_except e | Inr r \<Rightarrow> r)
      in (Inr result, w'))"

section \<open>The workflow state (workflow\_state.py)\<close>

text \<open>
  The state dictionary of a run. \<open>token\<close> is \<open>None\<close> for a missing token (Python's
  \<open>None\<close>); the other three fields start as \<open>None\<close>.
\<close>

record workflow_state =
  token :: "string option"
  verification_result :: "vresult option"
  analysis_message :: "string option"
  remediation_suggestions :: "string option"

section \<open>The nodes (graph\_nodes.py)\<close>

text \<open>
  A node takes the state and the world and returns the state it hands on, or the exception
  that leaves it, with the world after its calls. Printing is left out.
\<close>

text \<open>The guard of the verifier node: \<open>not token\<close> holds of \<open>None\<close> and of the empty string.\<close>

definition no_token_result :: vresult where
  "no_token_result =
     \<lparr>valid = False, scopes = None, message = ''No token provided.'', status_code = 0\<rparr>"

definition call_github_verifier_node ::
  "(json \<Rightarrow> string) \<Rightarrow> workflow_state \<Rightarrow> world \<Rightarrow> (exn + workflow_state) \<times> world" where
  "call_github_verifier_node fmt state w =
     (case token state of
        None \<Rightarrow> (Inr (state\<lparr>verification_result := Some no_token_result\<rparr>), w)
      | Some tok \<Rightarrow>
          if tok = [] then (Inr (state\<lparr>verification_result := Some no_token_result\<rparr>), w)
          else
            (case verify_github_token_api fmt tok w of
               (Inr result, w') \<Rightarrow> (Inr (state\<lparr>verification_result := Some result\<rparr>), w')
             | (Inl e, w') \<Rightarrow>
                 (Inr (state\<lparr>verification_result :=
                         Some \<lparr>valid = False, scopes = Some [],
                               message = ''Error during API call: '' @ exn_str e,
                               status_code = - 100\<rparr>\<rparr>), w')))"

text \<open>
  \<open>state.get("verification_result", {})\<close> gives the stored value when the key is there, also
  when that value is \<open>None\<close>; \<open>.get\<close> on \<open>None\<close> raises \<open>AttributeError\<close>.
\<close>

definition none_has_no_get :: exn where
  "none_has_no_get = no_attribute JNull ''get''"

text \<open>The value of \<open>verification_result.get("scopes")\<close> as the f-string renders it.\<close>

definition py_str_scopes :: "string list option \<Rightarrow> string" where
  "py_str_scopes xs = (case xs of None \<Rightarrow> ''None'' | Some ys \<Rightarrow> py_str_list ys)"

text \<open>
  The analyzer node. The human message is the f-string with the four values interpolated;
  \<open>ChatPromptTemplate.from_messages\<close> stands before the \<open>try\<close>, \<open>chain.invoke\<close> inside it.
\<close>

definition analysis_system :: string where
  "analysis_system =
     ''You are an AI assistant analyzing GitHub token verification results. ''
     @ ''Summarize the outcome concisely. State if the token is valid or invalid. ''
     @ ''If valid, list the scopes. If invalid, provide a brief, clear reason. ''
     @ ''Keep the summary to 1-3 sentences.''"

definition analysis_text :: "vresult \<Rightarrow> string" where
  "analysis_text vr =
     ''GitHub Token Verification Result:\<newline>Valid: '' @ py_str_bool (valid vr)
     @ ''\<newline>Message: '' @ message vr
     @ ''\<newline>Scopes: '' @ py_str_scopes (scopes vr)
     @ ''\<newline>Status Code: '' @ str_int (status_code vr)"

definition analysis_prompt :: "vresult \<Rightarrow> chat_prompt" where
  "analysis_prompt vr =
     \<lparr>system_message = analysis_system, human_message = analysis_text vr\<rparr>"

definition analyze_result_node ::
  "workflow_state \<Rightarrow> world \<Rightarrow> (exn + workflow_state) \<times> world" where
  "analyze_result_node state w =
     (case verification_result state of
        None \<Rightarrow> (Inl none_has_no_get, w)
      | Some vr \<Rightarrow>
          (case prompt_template w (analysis_text vr) of
             Rejected e \<Rightarrow> (Inl e, w)
           | Unfilled e \<Rightarrow>
               (Inr (state\<lparr>analysis_message :=
                       Some (''Error during analysis: '' @ exn_str e)\<rparr>), w)
           | Filled text \<Rightarrow>
               (case chain_invoke
                       \<lparr>system_message = analysis_system, human_message = text\<rparr> w of
                  (Inr analysis, w') \<Rightarrow>
                    (Inr (state\<lparr>analysis_message := Some analysis\<rparr>), w')
                | (Inl e, w') \<Rightarrow>
                    (Inr (state\<lparr>analysis_message :=
                            Some (''Error during analysis: '' @ exn_str e)\<rparr>), w'))))"

text \<open>
  The remediation node: the early return on a valid result stands before the prompt is
  built.
\<close>

definition remediation_system :: string where
  "remediation_system =
     ''You are an AI assistant providing practical remediation advice for GitHub token issues. ''
     @ ''Based on the error message and status code, suggest concrete, actionable steps to resolve the issue. ''
     @ ''Focus on common problems like expiration, incorrect scopes, or network issues. ''
     @ ''Provide 2-4 distinct suggestions.''"

definition remediation_text :: "vresult \<Rightarrow> string" where
  "remediation_text vr =
     ''GitHub Token Invalid. Error Message: '' @ [CHR 0x27] @ message vr @ [CHR 0x27]
     @ ''. Status Code: '' @ str_int (status_code vr)
     @ ''. What are the best steps to fix this token issue?''"

definition remediation_prompt :: "vresult \<Rightarrow> chat_prompt" where
  "remediation_prompt vr =
     \<lparr>system_message = remediation_system, human_message = remediation_text vr\<rparr>"

definition suggest_remediation_node ::
  "workflow_state \<Rightarrow> world \<Rightarrow> (exn + workflow_state) \<times> world" where
  "suggest_remediation_node state w =
     (case verification_result state of
        None \<Rightarrow> (Inl none_has_no_get, w)
      | Some vr \<Rightarrow>
          if valid vr then
            (Inr (state\<lparr>remediation_suggestions :=
                    Some ''Token is valid. No remediation needed.''\<rparr>), w)
          else
            (case prompt_template w (remediation_text vr) of
               Rejected e \<Rightarrow> (Inl e, w)
             | Unfilled e \<Rightarrow>
                 (Inr (state\<lparr>remediation_suggestions :=
                         Some (''Error generating suggestions: '' @ exn_str e)\<rparr>), w)
             | Filled text \<Rightarrow>
                 (case chain_invoke
                         \<lparr>system_message = remediation_system, human_message = text\<rparr> w of
                    (Inr suggestions, w') \<Rightarrow>
                      (Inr (state\<lparr>remediation_suggestions := Some suggestions\<rparr>), w')
                  | (Inl e, w') \<Rightarrow>
                      (Inr (state\<lparr>remediation_suggestions :=
                              Some (''Error generating suggestions: '' @ exn_str e)\<rparr>), w'))))"

section \<open>The orchestrator (main\_workflow.py)\<close>

text \<open>\<open>_decide_next_step\<close>: the name of the branch taken after the analysis.\<close>

definition decide_next_step :: "workflow_state \<Rightarrow> exn + string" where
  "decide_next_step state =
     (case verification_result state of
        None \<Rightarrow> Inl none_has_no_get
      | Some vr \<Rightarrow> if valid vr then Inr ''end'' else Inr ''remediate'')"

text \<open>
  The compiled graph of \<open>_build_graph\<close>: the entry point \<open>verify_token\<close>, the edge to
  \<open>analyze_result\<close>, the conditional edge that sends \<open>"remediate"\<close> to \<open>suggest_remediation\<close>
  and \<open>"end"\<close> to \<open>END\<close>, and the edge from \<open>suggest_remediation\<close> to \<open>END\<close>. An exception
  that leaves a node leaves \<open>invoke\<close>.
\<close>

definition invoke_graph ::
  "(json \<Rightarrow> string) \<Rightarrow> workflow_state \<Rightarrow> world \<Rightarrow> (exn + workflow_state) \<times> world" where
  "invoke_graph fmt state w =
     (case call_github_verifier_node fmt state w of
        (Inl e, w1) \<Rightarrow> (Inl e, w1)
      | (Inr s1, w1) \<Rightarrow>
          (case analyze_result_node s1 w1 of
             (Inl e, w2) \<Rightarrow> (Inl e, w2)
           | (Inr s2, w2) \<Rightarrow>
               (case decide_next_step s2 of
                  Inl e \<Rightarrow> (Inl e, w2)
                | Inr branch \<Rightarrow>
                    if branch = ''remediate'' then suggest_remediation_node s2 w2
                    else (Inr s2, w2))))"

text \<open>
  \<open>run\<close>: the initial state and the invocation of the graph. The preview of the diagram
  (a file written and opened in a browser, inside its own \<open>try\<close>) touches neither the state
  nor the two services and is left out.
\<close>

definition initial_state :: "string option \<Rightarrow> workflow_state" where
  "initial_state tok =
     \<lparr>token = tok, verification_result = None, analysis_message = None,
      remediation_suggestions = None\<rparr>"

definition run ::
  "(json \<Rightarrow> string) \<Rightarrow> string option \<Rightarrow> world \<Rightarrow> (exn + workflow_state) \<times> world" where
  "run fmt tok w = invoke_graph fmt (initial_state tok) w"

section \<open>The second analyzer (app.py)\<close>

text \<open>
  The state object of app.py. Its \<open>verification_result\<close> is a dictionary from the start:
  \<open>None\<close> stands for the empty dictionary of the initial state, whose every \<open>.get\<close> gives
  \<open>None\<close>. The node has no \<open>try\<close>: whatever the template or the model raises leaves it.
\<close>

record app_workflow_state =
  app_token :: string
  app_verification_result :: "vresult option"
  app_analysis_message :: string
  app_remediation_suggestions :: string

definition app_analysis_system :: string where
  "app_analysis_system =
     ''You are an AI assistant analyzing GitHub token verification results. ''
     @ ''Summarize the outcome and state if the token is valid or invalid. ''
     @ ''If valid, list the scopes. If invalid, provide a concise reason.''"

definition app_analysis_text :: "vresult option \<Rightarrow> string" where
  "app_analysis_text d =
     ''Verification Result:\<newline>Valid: ''
     @ (case d of None \<Rightarrow> ''None'' | Some vr \<Rightarrow> py_str_bool (valid vr))
     @ ''\<newline>Message: '' @ (case d of None \<Rightarrow> ''None'' | Some vr \<Rightarrow> message vr)
     @ ''\<newline>Scopes: '' @ (case d of None \<Rightarrow> ''None'' | Some vr \<Rightarrow> py_str_scopes (scopes vr))
     @ ''\<newline>Status Code: ''
     @ (case d of None \<Rightarrow> ''None'' | Some vr \<Rightarrow> str_int (status_code vr))"

definition analyze_verification_result ::
  "app_workflow_state \<Rightarrow> world \<Rightarrow> (exn + app_workflow_state) \<times> world" where
  "analyze_verification_result state w =
     (case prompt_template w (app_analysis_text (app_verification_result state)) of
        Rejected e \<Rightarrow> (Inl e, w)
      | Unfilled e \<Rightarrow> (Inl e, w)
      | Filled text \<Rightarrow>
          (case chain_invoke
                  \<lparr>system_message = app_analysis_system, human_message = text\<rparr> w of
             (Inl e, w') \<Rightarrow> (Inl e, w')
           | (Inr analysis, w') \<Rightarrow> (Inr (state\<lparr>app_analysis_message := analysis\<rparr>), w')))"

section \<open>Names for the statements\<close>

text \<open>
  The request that the verifier sends for a token, what happens to it on the network, and
  what \<open>requests.get\<close> returns or raises for it.
\<close>

definition api_url :: string where
  "api_url = ''https://api.github.com/user''"

definition request_headers :: "string \<Rightarrow> (string \<times> string) list" where
  "request_headers tok =
     [(''Authorization'', ''token '' @ tok), (''Accept'', ''application/vnd.github.v3+json'')]"

definition github_transport :: "string \<Rightarrow> world \<Rightarrow> transport" where
  "github_transport tok w = github_api w api_url (request_headers tok)"

definition github_outcome :: "string \<Rightarrow> world \<Rightarrow> exn + response" where
  "github_outcome tok w = raised_or_returned (github_transport tok w)"

text \<open>
  The specification's reading of the scopes: the header split on commas, each entry
  trimmed, empty entries dropped.
\<close>

definition spec_scopes :: "string \<Rightarrow> string list" where
  "spec_scopes header = filter (\<lambda>s. s \<noteq> []) (map py_strip (py_split '','' header))"

text \<open>Every comma of the header is followed by a space.\<close>

fun commas_spaced :: "string \<Rightarrow> bool" where
  "commas_spaced [] = True"
| "commas_spaced [c] = (c \<noteq> CHR '','')"
| "commas_spaced (c # d # cs) = ((c \<noteq> CHR '','' \<or> d = CHR '' '') \<and> commas_spaced (d # cs))"

text \<open>
  \<open>response.json()\<close> returns a value or raises a JSON decode error, the two cases that the
  inner \<open>try\<close> of the verifier is written for.
\<close>

definition json_or_decode_error :: "response \<Rightarrow> bool" where
  "json_or_decode_error r = (case resp_json r of Inr j \<Rightarrow> True | Inl e \<Rightarrow> is_JSONDecodeError e)"

text \<open>
  The HTTP status space (1xx to 5xx) and the negative sentinels of the specification.
\<close>

definition http_status :: "int \<Rightarrow> bool" where
  "http_status c = (100 \<le> c \<and> c \<le> 599)"

definition negative_sentinel :: "int \<Rightarrow> bool" where
  "negative_sentinel c = (c < 0)"

text \<open>
  The graph after the verifier node, as one function of the state \<open>s1\<close> that the node
  returned: the analysis, the decision, and the remediation on the branch \<open>"remediate"\<close>.
\<close>

definition rest_of_graph :: "workflow_state \<Rightarrow> world \<Rightarrow> (exn + workflow_state) \<times> world" where
  "rest_of_graph s1 w1 =
     (case analyze_result_node s1 w1 of
        (Inl e, w2) \<Rightarrow> (Inl e, w2)
      | (Inr s2, w2) \<Rightarrow>
          (case decide_next_step s2 of
             Inl e \<Rightarrow> (Inl e, w2)
           | Inr branch \<Rightarrow>
               if branch = ''remediate'' then suggest_remediation_node s2 w2
               else (Inr s2, w2)))"

text \<open>
  Concrete inputs. A world that answers every request with one outcome and every prompt
  with one reply; its template library rejects a text whose braces do not pair up and
  finds a variable without a value in every other text with braces. A world for one
  transport. A rendering of the values that are not strings, and three responses.
\<close>

definition demo_templates :: "string \<Rightarrow> template_result" where
  "demo_templates text =
     (if length (filter (\<lambda>c. c = CHR 0x7B) text) = length (filter (\<lambda>c. c = CHR 0x7D) text)
      then Unfilled (KeyError ''Input to ChatPromptTemplate is missing variables'')
      else Rejected (ValueError ''brace without its partner in format string''))"

definition transport_world :: "transport \<Rightarrow> (exn + string) \<Rightarrow> world" where
  "transport_world t reply =
     \<lparr>github_api = (\<lambda>url hdrs. t), llm = (\<lambda>p. reply), templates = demo_templates,
      calls = []\<rparr>"

definition demo_world :: "(exn + response) \<Rightarrow> (exn + string) \<Rightarrow> world" where
  "demo_world outcome reply =
     transport_world (case outcome of Inl e \<Rightarrow> Failed e | Inr r \<Rightarrow> Responded r) reply"

definition demo_fmt :: "json \<Rightarrow> string" where
  "demo_fmt v = py_type_name v"

definition html_response :: "int \<Rightarrow> response" where
  "html_response code =
     \<lparr>resp_status_code = code, resp_headers = Map.empty,
      resp_text = ''<html>Bad Gateway</html>'',
      resp_json = Inl (RequestsJSONDecodeError ''Expecting value'')\<rparr>"

definition json_response :: "int \<Rightarrow> string \<Rightarrow> response" where
  "json_response code msg =
     \<lparr>resp_status_code = code, resp_headers = Map.empty,
      resp_text = ''{}'', resp_json = Inr (JDict [(''message'', JStr msg)])\<rparr>"

definition ok_response :: "string \<Rightarrow> response" where
  "ok_response hdr =
     \<lparr>resp_status_code = 200, resp_headers = [''x-oauth-scopes'' \<mapsto> hdr],
      resp_text = ''{}'', resp_json = Inr (JDict [(''login'', JStr ''octocat'')])\<rparr>"

section \<open>Splitting and trimming\<close>

lemma py_split_nonempty: "py_split sep s \<noteq> []"
  by (induction sep s rule: py_split.induct) (auto simp: Let_def)

lemma space_isspace: "py_isspace (CHR '' '')"
  by (simp add: py_isspace_def)

lemma strip_space: "py_strip (CHR '' '' # s) = py_strip s"
  by (simp add: py_strip_def space_isspace)

text \<open>Trimming a trimmed string changes nothing.\<close>

lemma py_strip_idem: "py_strip (py_strip s) = py_strip s"
proof -
  define t where "t = dropWhile py_isspace s"
  define u where "u = dropWhile py_isspace (rev t)"
  have su: "py_strip s = rev u"
    by (simp add: py_strip_def t_def u_def)
  have uu: "dropWhile py_isspace u = u"
    by (simp add: u_def)
  have "dropWhile py_isspace (rev u) = rev u"
  proof (cases "u = []")
    case True
    then show ?thesis by simp
  next
    case False
    have "rev t = takeWhile py_isspace (rev t) @ u"
      by (simp add: u_def)
    then have "t = rev u @ rev (takeWhile py_isspace (rev t))"
      by (metis rev_append rev_rev_ident)
    with False have h: "hd t = hd (rev u)" and tn: "t \<noteq> []"
      by (metis hd_append2 rev_is_Nil_conv, metis Nil_is_append_conv rev_is_Nil_conv)
    have "\<not> py_isspace (hd t)"
      using tn unfolding t_def by (rule hd_dropWhile)
    with h False show ?thesis
      by (simp add: dropWhile_eq_self_iff)
  qed
  then have "py_strip (rev u) = rev u"
    unfolding py_strip_def by (simp add: uu)
  then show ?thesis
    unfolding su .
qed

lemma parse_scopes_entries:
  "s \<in> set (parse_scopes header) \<Longrightarrow> s \<noteq> [] \<and> py_strip s = s"
  by (auto simp: parse_scopes_def py_strip_idem)

text \<open>
  When every comma is followed by a space, the pieces between commas are the pieces between
  the separators \<open>', '\<close>, each but the first with the space in front.
\<close>

lemma split_rel:
  "commas_spaced s \<Longrightarrow>
   py_split '','' s = hd (py_split '', '' s) # map ((#) (CHR '' '')) (tl (py_split '', '' s))"
proof (induction s rule: length_induct)
  case (1 s)
  show ?case
  proof (cases s)
    case Nil
    then show ?thesis by simp
  next
    case (Cons c cs)
    show ?thesis
    proof (cases "c = CHR '',''")
      case True
      with Cons 1(2) obtain cs' where cs: "cs = CHR '' '' # cs'" and sp: "commas_spaced cs"
        by (cases cs) auto
      have sp': "commas_spaced cs'"
        using sp cs by (cases cs') auto
      have ih: "py_split '','' cs' =
                  hd (py_split '', '' cs') # map ((#) (CHR '' '')) (tl (py_split '', '' cs'))"
        using 1(1) sp' Cons cs by simp
      have ne: "py_split '', '' cs' \<noteq> []"
        by (rule py_split_nonempty)
      show ?thesis
        using Cons True cs ih ne by (cases "py_split '', '' cs'") (simp_all add: Let_def)
    next
      case False
      have sp: "commas_spaced cs"
        using 1(2) Cons False by (cases cs) auto
      have ih: "py_split '','' cs =
                  hd (py_split '', '' cs) # map ((#) (CHR '' '')) (tl (py_split '', '' cs))"
        using 1(1) sp Cons by simp
      show ?thesis
        using Cons False ih by (simp add: Let_def)
    qed
  qed
qed

lemma parse_scopes_spec:
  assumes "commas_spaced s"
  shows "parse_scopes s = spec_scopes s"
proof -
  have "py_split '', '' s \<noteq> []"
    by (rule py_split_nonempty)
  then obtain p ps where ps: "py_split '', '' s = p # ps"
    by (cases "py_split '', '' s") auto
  have "map py_strip (py_split '','' s) = map py_strip (py_split '', '' s)"
    using split_rel [OF assms] ps by (simp add: strip_space comp_def)
  then show ?thesis
    by (simp add: parse_scopes_def spec_scopes_def filter_map comp_def)
qed

lemma parse_scopes_example [simp]: "parse_scopes ''repo, read:org'' = [''repo'', ''read:org'']"
  by (simp add: parse_scopes_def py_strip_def py_isspace_def Let_def)

lemma parse_scopes_nospace: "parse_scopes ''repo,read:org'' = [''repo,read:org'']"
  by (simp add: parse_scopes_def py_strip_def py_isspace_def Let_def)

lemma spec_scopes_nospace: "spec_scopes ''repo,read:org'' = [''repo'', ''read:org'']"
  by (simp add: spec_scopes_def py_strip_def py_isspace_def Let_def)

lemma scopes_header_lower [simp]: "py_lower ''X-OAuth-Scopes'' = ''x-oauth-scopes''"
  by code_simp

lemma str_int_502 [simp]: "str_int 502 = ''502''"
  by code_simp

section \<open>The verifier's result\<close>

lemma verify_unfold:
  "verify_github_token_api fmt tok w =
     (Inr (case github_outcome tok w of
             Inl e \<Rightarrow> verifier_except e
           | Inr response \<Rightarrow>
               (case classify_response fmt response of
                  Inl e \<Rightarrow> verifier_except e
                | Inr r \<Rightarrow> r)),
      w\<lparr>calls := calls w @ [HttpGet api_url (request_headers tok)]\<rparr>)"
  by (simp add: verify_github_token_api_def requests_get_def github_outcome_def
      github_transport_def api_url_def request_headers_def split: sum.splits)

lemma verifier_except_invalid:
  "\<not> valid (verifier_except e)"
  "scopes (verifier_except e) = Some []"
  "status_code (verifier_except e) =
     (if is_Timeout e then - 1 else if is_RequestException e then - 2 else - 99)"
  by (simp_all add: verifier_except_def)

lemma classify_response_cases:
  assumes "classify_response fmt r = Inr v"
  shows "status_code v = resp_status_code r"
    and "valid v \<longleftrightarrow> resp_status_code r = 200"
    and "resp_status_code r \<noteq> 200 \<Longrightarrow> scopes v = Some []"
  using assms
  by (auto simp: classify_response_def split: if_splits sum.splits)


lemma classify_response_decodable:
  assumes "json_or_decode_error response" and "resp_status_code response = 200"
  shows "classify_response fmt response =
           Inr \<lparr>valid = True,
                scopes = Some (parse_scopes
                                (headers_get (resp_headers response) ''X-OAuth-Scopes'' [])),
                message = ''Token is valid.'', status_code = 200\<rparr>"
  using assms
  by (auto simp: classify_response_def response_data_of_def json_or_decode_error_def
      split: sum.splits)

lemma demo_transport [simp]: "github_transport tok (transport_world t reply) = t"
  by (simp add: github_transport_def transport_world_def)

lemma transport_outcome [simp]:
  "github_outcome tok (transport_world t reply) = raised_or_returned t"
  by (simp add: github_outcome_def)

lemma demo_outcome [simp]: "github_outcome tok (demo_world outcome reply) = outcome"
  by (cases outcome) (simp_all add: demo_world_def)

lemma transport_llm [simp]: "llm (transport_world t reply) p = reply"
  by (simp add: transport_world_def)

lemma transport_calls [simp]: "calls (transport_world t reply) = []"
  by (simp add: transport_world_def)

lemma demo_llm [simp]: "llm (demo_world outcome reply) p = reply"
  by (simp add: demo_world_def)

lemma demo_calls [simp]: "calls (demo_world outcome reply) = []"
  by (simp add: demo_world_def)

lemma ok_header [simp]: "headers_get (resp_headers (ok_response hdr)) ''X-OAuth-Scopes'' [] = hdr"
  by (simp add: headers_get_def ok_response_def)

lemma classify_ok [simp]:
  "classify_response fmt (ok_response hdr) =
     Inr \<lparr>valid = True, scopes = Some (parse_scopes hdr), message = ''Token is valid.'',
          status_code = 200\<rparr>"
  using ok_header [of hdr]
    classify_response_decodable [of "ok_response hdr" fmt]
  by (simp add: json_or_decode_error_def) (simp add: ok_response_def)

lemma classify_json_401 [simp]:
  "classify_response fmt (json_response 401 msg) =
     Inr \<lparr>valid = False, scopes = Some [],
          message = ''Token is invalid or expired: '' @ msg, status_code = 401\<rparr>"
  by (simp add: classify_response_def json_response_def response_data_of_def)

lemma classify_json_502 [simp]:
  "classify_response fmt (json_response 502 msg) =
     Inr \<lparr>valid = False, scopes = Some [],
          message = ''Unexpected API response (Status: 502): '' @ msg, status_code = 502\<rparr>"
  by (simp add: classify_response_def json_response_def response_data_of_def)

lemma classify_html_502 [simp]:
  "classify_response fmt (html_response 502) =
     Inr \<lparr>valid = False, scopes = Some [],
          message = ''Unexpected API response (Status: 502): <html>Bad Gateway</html>...'',
          status_code = 502\<rparr>"
  by (simp add: classify_response_def html_response_def response_data_of_def)

lemma classify_html_200 [simp]:
  "classify_response fmt (html_response 200) =
     Inr \<lparr>valid = True, scopes = Some [], message = ''Token is valid.'', status_code = 200\<rparr>"
  by (simp add: classify_response_def html_response_def response_data_of_def
      headers_get_def parse_scopes_def py_strip_def)

lemma classify_null_403 [simp]:
  "classify_response fmt
     \<lparr>resp_status_code = 403, resp_headers = Map.empty, resp_text = ''{}'',
      resp_json = Inr (JDict [(''message'', JNull)])\<rparr> =
   Inl (no_attribute JNull ''lower'')"
  by (simp add: classify_response_def response_data_of_def forbidden_message_def)

lemma classify_recursion [simp]:
  "classify_response fmt ((ok_response hdr)\<lparr>resp_json := Inl (RecursionError m)\<rparr>) =
     Inl (RecursionError m)"
  by (simp add: classify_response_def response_data_of_def)

lemma verify_ok_demo:
  "fst (verify_github_token_api demo_fmt ''ghp_x''
          (demo_world (Inr (ok_response ''repo, read:org'')) reply)) =
     Inr \<lparr>valid = True, scopes = Some [''repo'', ''read:org''],
          message = ''Token is valid.'', status_code = 200\<rparr>"
  by (simp add: verify_unfold)

lemma verify_401_demo:
  "fst (verify_github_token_api demo_fmt ''ghp_x''
          (demo_world (Inr (json_response 401 ''Bad credentials'')) reply)) =
     Inr \<lparr>valid = False, scopes = Some [],
          message = ''Token is invalid or expired: Bad credentials'', status_code = 401\<rparr>"
  by (simp add: verify_unfold)




text \<open>
  C4, as amended. For every token for which the API returns status 200 with a body that
  \<open>response.json()\<close> decodes or refuses with a JSON decode error, the verifier returns
  \<open>valid = True\<close>, \<open>status_code = 200\<close> and the scopes of the \<open>X-OAuth-Scopes\<close> header split on
  the separator \<open>', '\<close> (a comma and a space), each entry trimmed and the empty entries
  dropped: every scope is trimmed and not empty. This is the split on commas whenever every
  comma of the header is followed by a space.
\<close>

theorem ok_result_scopes:
  assumes "github_outcome tok w = Inr response" and "resp_status_code response = 200"
    and "json_or_decode_error response"
  shows "fst (verify_github_token_api fmt tok w) =
           Inr \<lparr>valid = True,
                scopes = Some (parse_scopes
                                (headers_get (resp_headers response) ''X-OAuth-Scopes'' [])),
                message = ''Token is valid.'', status_code = 200\<rparr>
       \<and> (\<forall>s \<in> set (parse_scopes (headers_get (resp_headers response) ''X-OAuth-Scopes'' [])).
            s \<noteq> [] \<and> py_strip s = s)
       \<and> (commas_spaced (headers_get (resp_headers response) ''X-OAuth-Scopes'' []) \<longrightarrow>
            parse_scopes (headers_get (resp_headers response) ''X-OAuth-Scopes'' []) =
            spec_scopes (headers_get (resp_headers response) ''X-OAuth-Scopes'' []))"
proof -
  have "classify_response fmt response =
          Inr \<lparr>valid = True,
               scopes = Some (parse_scopes
                               (headers_get (resp_headers response) ''X-OAuth-Scopes'' [])),
               message = ''Token is valid.'', status_code = 200\<rparr>"
    by (rule classify_response_decodable [OF assms(3,2)])
  with assms(1) show ?thesis
    using parse_scopes_spec parse_scopes_entries by (simp add: verify_unfold)
qed

theorem ok_result_scopes_witness:
  "fst (verify_github_token_api demo_fmt ''ghp_x''
          (demo_world (Inr (ok_response ''repo, read:org'')) (Inr ''ok''))) =
     Inr \<lparr>valid = True, scopes = Some [''repo'', ''read:org''],
          message = ''Token is valid.'', status_code = 200\<rparr>
   \<and> spec_scopes ''repo, read:org'' = [''repo'', ''read:org'']"
proof -
  let ?w = "demo_world (Inr (ok_response ''repo, read:org'')) (Inr ''ok'')"
  have a: "github_outcome ''ghp_x'' ?w = Inr (ok_response ''repo, read:org'')"
    by simp
  have b: "resp_status_code (ok_response ''repo, read:org'') = 200"
    by (simp add: ok_response_def)
  have c: "json_or_decode_error (ok_response ''repo, read:org'')"
    by (simp add: ok_response_def json_or_decode_error_def)
  have d: "commas_spaced ''repo, read:org''"
    by simp
  from ok_result_scopes [OF a b c, of demo_fmt] d show ?thesis
    by simp
qed

text \<open>
  The claim as stated fails on a header whose comma has no space after it: the code keeps
  \<open>repo,read:org\<close> as one scope, the split on commas gives two. It also fails on a response
  with status 200 whose decoding raises something other than a JSON decode error: the
  result is not valid.
\<close>

theorem comma_split_counterexample:
  "fst (verify_github_token_api demo_fmt ''ghp_x''
          (demo_world (Inr (ok_response ''repo,read:org'')) (Inr ''ok''))) =
     Inr \<lparr>valid = True, scopes = Some [''repo,read:org''],
          message = ''Token is valid.'', status_code = 200\<rparr>
   \<and> spec_scopes ''repo,read:org'' = [''repo'', ''read:org'']
   \<and> fst (verify_github_token_api demo_fmt ''ghp_x''
          (demo_world
             (Inr ((ok_response ''repo, read:org'')
                     \<lparr>resp_json := Inl (RecursionError ''maximum recursion depth exceeded'')\<rparr>))
             (Inr ''ok''))) =
     Inr \<lparr>valid = False, scopes = Some [],
          message = ''An unexpected error occurred during tool execution: ''
                    @ ''maximum recursion depth exceeded'',
          status_code = - 99\<rparr>"
  by (simp add: verify_unfold parse_scopes_nospace spec_scopes_nospace verifier_except_def)

text \<open>
  A timeout exception from \<open>requests.get\<close>, which is what a connect timeout and a timeout
  before the response raise, gives the result of the first handler.
\<close>

lemma timeout_result:
  assumes "github_outcome tok w = Inl e" and "is_Timeout e"
  shows "fst (verify_github_token_api fmt tok w) =
           Inr \<lparr>valid = False, scopes = Some [],
                message = ''Request timed out when connecting to GitHub API.'',
                status_code = - 1\<rparr>"
  using assms by (simp add: verify_unfold verifier_except_def)

lemma timeout_before_body:
  assumes "github_transport tok w = ConnectTimedOut m \<or> github_transport tok w = ReadTimedOut m"
  shows "fst (verify_github_token_api fmt tok w) =
           Inr \<lparr>valid = False, scopes = Some [],
                message = ''Request timed out when connecting to GitHub API.'',
                status_code = - 1\<rparr>"
  using assms by (auto simp: verify_unfold verifier_except_def github_outcome_def)

lemma timeout_in_body:
  assumes "github_transport tok w = BodyReadTimedOut m"
  shows "fst (verify_github_token_api fmt tok w) =
           Inr \<lparr>valid = False, scopes = Some [],
                message = ''Network or API request error: '' @ m,
                status_code = - 2\<rparr>"
  using assms by (simp add: verify_unfold verifier_except_def github_outcome_def)

text \<open>
  C7. A request that exceeds the timeout gets the code -1 and the timeout message when the
  timeout passes before the response arrives. When it passes while the body of the
  response is read, the library raises a connection error, the handler for timeouts is
  missed, and the verifier returns the code -2 of a network error.
\<close>

theorem body_read_timeout_code:
  "fst (verify_github_token_api demo_fmt ''ghp_x''
          (transport_world (BodyReadTimedOut ''Read timed out.'') (Inr ''ok''))) =
     Inr \<lparr>valid = False, scopes = Some [],
          message = ''Network or API request error: Read timed out.'',
          status_code = - 2\<rparr>
   \<and> fst (verify_github_token_api demo_fmt ''ghp_x''
          (transport_world (ReadTimedOut ''Read timed out. (read timeout=10)'') (Inr ''ok''))) =
     Inr \<lparr>valid = False, scopes = Some [],
          message = ''Request timed out when connecting to GitHub API.'',
          status_code = - 1\<rparr>"
  by (simp add: verify_unfold verifier_except_def)

text \<open>
  C9. Every result of the verifier is valid exactly when its status code is 200; an invalid
  result has the empty list of scopes; and scopes other than the empty list only come from
  a response with status 200.
\<close>

theorem verifier_valid_iff_200:
  "\<exists>r. fst (verify_github_token_api fmt tok w) = Inr r
       \<and> (valid r \<longleftrightarrow> status_code r = 200)
       \<and> (\<not> valid r \<longrightarrow> scopes r = Some [])
       \<and> (scopes r \<noteq> Some [] \<longrightarrow>
            (\<exists>response. github_outcome tok w = Inr response
                        \<and> resp_status_code response = 200))"
proof (cases "github_outcome tok w")
  case (Inl e)
  then show ?thesis
    by (simp add: verify_unfold verifier_except_invalid)
next
  case (Inr response)
  show ?thesis
  proof (cases "classify_response fmt response")
    case (Inl e)
    with Inr show ?thesis
      by (simp add: verify_unfold verifier_except_invalid)
  next
    case r: (Inr v)
    from classify_response_cases [OF r] Inr r show ?thesis
      by (auto simp: verify_unfold)
  qed
qed

theorem verifier_valid_iff_200_witness:
  "\<exists>r. fst (verify_github_token_api demo_fmt ''ghp_x''
              (demo_world (Inr (json_response 401 ''Bad credentials'')) (Inr ''ok''))) = Inr r
       \<and> \<not> valid r \<and> status_code r = 401 \<and> scopes r = Some []"
proof -
  let ?w = "demo_world (Inr (json_response 401 ''Bad credentials'')) (Inr ''ok'')"
  obtain r where r: "fst (verify_github_token_api demo_fmt ''ghp_x'' ?w) = Inr r"
    and iff: "valid r \<longleftrightarrow> status_code r = 200"
    and inv: "\<not> valid r \<longrightarrow> scopes r = Some []"
    using verifier_valid_iff_200 [of demo_fmt "''ghp_x''" ?w] by blast
  have code: "status_code r = 401"
    using r by (auto simp: verify_401_demo)
  with iff inv r show ?thesis
    by auto
qed

section \<open>The second verifier's result\<close>

lemma tool_unfold:
  "verify_github_token_tool fmt tok w =
     (Inr (case github_outcome tok w of
             Inl e \<Rightarrow> tool_except e
           | Inr response \<Rightarrow>
               (case tool_try fmt response of
                  Inl e \<Rightarrow> tool_except e
                | Inr r \<Rightarrow> r)),
      w\<lparr>calls := calls w @ [HttpGet api_url (request_headers tok)]\<rparr>)"
  by (simp add: verify_github_token_tool_def requests_get_def github_outcome_def
      github_transport_def api_url_def request_headers_def split: sum.splits)

lemma tool_try_cases:
  assumes "tool_try fmt r = Inr v"
  shows "status_code v = resp_status_code r"
    and "valid v \<longleftrightarrow> resp_status_code r = 200"
    and "resp_status_code r \<noteq> 200 \<Longrightarrow> scopes v = Some []"
  using assms
  by (auto simp: tool_try_def split: if_splits sum.splits)

text \<open>
  The tool of verify.py returns a result on every outcome as well, valid exactly on status
  200 and without scopes when invalid.
\<close>

lemma tool_valid_iff_200:
  "\<exists>r. fst (verify_github_token_tool fmt tok w) = Inr r
       \<and> (valid r \<longleftrightarrow> status_code r = 200)
       \<and> (\<not> valid r \<longrightarrow> scopes r = Some [])"
proof (cases "github_outcome tok w")
  case (Inl e)
  then show ?thesis
    by (simp add: tool_unfold tool_except_def)
next
  case (Inr response)
  show ?thesis
  proof (cases "tool_try fmt response")
    case (Inl e)
    with Inr show ?thesis
      by (simp add: tool_unfold tool_except_def)
  next
    case r: (Inr v)
    from tool_try_cases [OF r] Inr r show ?thesis
      by (auto simp: tool_unfold)
  qed
qed

text \<open>
  A timeout is a request exception: the tool reports it with the code -1 of its network
  errors, and the message carries the text of the exception.
\<close>

lemma tool_timeout:
  assumes "github_outcome tok w = Inl e" and "is_Timeout e"
  shows "fst (verify_github_token_tool fmt tok w) =
           Inr \<lparr>valid = False, scopes = Some [],
                message = ''Network or API request error: '' @ exn_str e,
                status_code = - 1\<rparr>"
proof -
  from assms(2) have "is_RequestException e"
    by (cases e) simp_all
  with assms(1) show ?thesis
    by (simp add: tool_unfold tool_except_def)
qed

text \<open>A body that is not JSON: -1 or -3 in the tool, by the class of the decode error.\<close>

lemma tool_unparseable_body:
  "fst (verify_github_token_tool demo_fmt ''ghp_x''
          (demo_world (Inr (html_response 502)) (Inr ''ok''))) =
     Inr \<lparr>valid = False, scopes = Some [],
          message = ''Network or API request error: Expecting value'', status_code = - 1\<rparr>
   \<and> fst (verify_github_token_tool demo_fmt ''ghp_x''
          (demo_world
             (Inr ((html_response 502)\<lparr>resp_json := Inl (JSONDecodeError ''Expecting value'')\<rparr>))
             (Inr ''ok''))) =
     Inr \<lparr>valid = False, scopes = Some [],
          message = ''JSON Decode Error: Unexpected response format from GitHub API.'',
          status_code = - 3\<rparr>"
  by (simp add: tool_unfold tool_try_def tool_except_def html_response_def)

text \<open>The tool does not trim: a second space after the comma stays in the scope.\<close>

lemma tool_scopes_untrimmed:
  "tool_scopes ''repo,  read:org'' = [''repo'', '' read:org'']"
  "parse_scopes ''repo,  read:org'' = [''repo'', ''read:org'']"
  by (simp_all add: tool_scopes_def parse_scopes_def py_strip_def py_isspace_def Let_def)

section \<open>Prompt templates\<close>

lemma template_plain: "\<not> has_brace text \<Longrightarrow> prompt_template w text = Filled text"
  by (simp add: prompt_template_def)

lemma template_calls [simp]: "prompt_template (w\<lparr>calls := cs\<rparr>) text = prompt_template w text"
  by (simp add: prompt_template_def)

lemma has_brace_append [simp]: "has_brace (a @ b) = (has_brace a \<or> has_brace b)"
  by (auto simp: has_brace_def)

lemma digit_no_brace:
  assumes "k < 10"
  shows "char_of (48 + k :: nat) \<noteq> CHR 0x7B" and "char_of (48 + k :: nat) \<noteq> CHR 0x7D"
proof -
  have v: "(of_char (char_of (48 + k :: nat)) :: nat) = 48 + k"
    using assms by (simp add: of_char_of)
  show "char_of (48 + k :: nat) \<noteq> CHR 0x7B"
  proof
    assume "char_of (48 + k :: nat) = CHR 0x7B"
    then have "(of_char (char_of (48 + k :: nat)) :: nat) = of_char (CHR 0x7B)"
      by simp
    with v have "48 + k = (123 :: nat)"
      by simp
    with assms show False
      by simp
  qed
  show "char_of (48 + k :: nat) \<noteq> CHR 0x7D"
  proof
    assume "char_of (48 + k :: nat) = CHR 0x7D"
    then have "(of_char (char_of (48 + k :: nat)) :: nat) = of_char (CHR 0x7D)"
      by simp
    with v have "48 + k = (125 :: nat)"
      by simp
    with assms show False
      by simp
  qed
qed

lemma str_nat_no_brace: "\<not> has_brace (str_nat n)"
proof (induction n rule: str_nat.induct)
  case (1 n)
  show ?case
  proof (cases "n < 10")
    case True
    then show ?thesis
      using digit_no_brace [of n] by (simp add: str_nat.simps [of n] has_brace_def)
  next
    case False
    have "n mod 10 < 10"
      by simp
    with False 1 show ?thesis
      using digit_no_brace [of "n mod 10"]
      by (simp add: str_nat.simps [of n]) (simp add: has_brace_def)
  qed
qed

lemma str_int_no_brace: "\<not> has_brace (str_int i)"
  using str_nat_no_brace by (simp add: str_int_def has_brace_def)

text \<open>
  The text of the remediation prompt has a brace exactly when the message of the
  verification result has one.
\<close>

lemma remediation_text_brace: "has_brace (remediation_text vr) = has_brace (message vr)"
  using str_int_no_brace [of "status_code vr"]
  by (simp add: remediation_text_def) (simp add: has_brace_def)

section \<open>The nodes\<close>

lemma verifier_node_no_token:
  assumes "token state = None \<or> token state = Some []"
  shows "call_github_verifier_node fmt state w =
           (Inr (state\<lparr>verification_result := Some no_token_result\<rparr>), w)"
  using assms by (auto simp: call_github_verifier_node_def)

lemma verifier_node_token:
  assumes "token state = Some tok" and "tok \<noteq> []"
  shows "\<exists>r. fst (verify_github_token_api fmt tok w) = Inr r \<and>
             call_github_verifier_node fmt state w =
               (Inr (state\<lparr>verification_result := Some r\<rparr>),
                w\<lparr>calls := calls w @ [HttpGet api_url (request_headers tok)]\<rparr>)"
  using assms by (simp add: call_github_verifier_node_def verify_unfold)

lemma verifier_node_writes:
  "\<exists>vr w1. call_github_verifier_node fmt state w =
               (Inr (state\<lparr>verification_result := Some vr\<rparr>), w1)
     \<and> ((token state = None \<or> token state = Some []) \<and> vr = no_token_result \<and> w1 = w
        \<or> (\<exists>t. token state = Some t \<and> t \<noteq> []
               \<and> fst (verify_github_token_api fmt t w) = Inr vr
               \<and> w1 = w\<lparr>calls := calls w @ [HttpGet api_url (request_headers t)]\<rparr>))"
proof (cases "token state = None \<or> token state = Some []")
  case True
  then show ?thesis
    using verifier_node_no_token [OF True, of fmt w] by auto
next
  case False
  then obtain t where t: "token state = Some t" "t \<noteq> []"
    by auto
  from verifier_node_token [OF t, of fmt w] t show ?thesis
    by auto
qed

text \<open>The analyzer node, by what the template library makes of the text.\<close>

lemma analyze_filled:
  assumes "verification_result state = Some vr"
    and "prompt_template w (analysis_text vr) = Filled text"
  shows "analyze_result_node state w =
           (Inr (state\<lparr>analysis_message :=
                   Some (case llm w \<lparr>system_message = analysis_system, human_message = text\<rparr> of
                           Inr analysis \<Rightarrow> analysis
                         | Inl e \<Rightarrow> ''Error during analysis: '' @ exn_str e)\<rparr>),
            w\<lparr>calls := calls w @
                 [ChatInvoke \<lparr>system_message = analysis_system, human_message = text\<rparr>]\<rparr>)"
  using assms by (simp add: analyze_result_node_def chain_invoke_def split: sum.splits)

lemma analyze_unfilled:
  assumes "verification_result state = Some vr"
    and "prompt_template w (analysis_text vr) = Unfilled e"
  shows "analyze_result_node state w =
           (Inr (state\<lparr>analysis_message := Some (''Error during analysis: '' @ exn_str e)\<rparr>),
            w)"
  using assms by (simp add: analyze_result_node_def)

lemma analyze_rejected:
  assumes "verification_result state = Some vr"
    and "prompt_template w (analysis_text vr) = Rejected e"
  shows "analyze_result_node state w = (Inl e, w)"
  using assms by (simp add: analyze_result_node_def)

lemma analyze_plain:
  assumes "verification_result state = Some vr" and "\<not> has_brace (analysis_text vr)"
  shows "analyze_result_node state w =
           (Inr (state\<lparr>analysis_message :=
                   Some (case llm w (analysis_prompt vr) of
                           Inr analysis \<Rightarrow> analysis
                         | Inl e \<Rightarrow> ''Error during analysis: '' @ exn_str e)\<rparr>),
            w\<lparr>calls := calls w @ [ChatInvoke (analysis_prompt vr)]\<rparr>)"
  using analyze_filled [OF assms(1) template_plain [OF assms(2)]]
  by (simp add: analysis_prompt_def)

text \<open>
  The analyzer of graph\_nodes.py absorbs a failure of the chat model: it returns the state
  with the error text in \<open>analysis_message\<close>.
\<close>

lemma analyze_result_node_absorbs:
  assumes "verification_result state = Some vr"
    and "prompt_template w (analysis_text vr) = Filled text"
    and "llm w \<lparr>system_message = analysis_system, human_message = text\<rparr> = Inl e"
  shows "fst (analyze_result_node state w) =
           Inr (state\<lparr>analysis_message := Some (''Error during analysis: '' @ exn_str e)\<rparr>)"
  using assms by (simp add: analyze_filled)

lemma analyze_frame:
  assumes "analyze_result_node s w = (Inr s', w')"
  shows "token s' = token s" and "verification_result s' = verification_result s"
    and "remediation_suggestions s' = remediation_suggestions s"
    and "llm w' = llm w" and "templates w' = templates w"
  using assms
  by (auto simp: analyze_result_node_def chain_invoke_def
      split: option.splits sum.splits template_result.splits)

text \<open>The remediation node, likewise.\<close>

lemma remediate_filled:
  assumes "verification_result state = Some vr" and "\<not> valid vr"
    and "prompt_template w (remediation_text vr) = Filled text"
  shows "suggest_remediation_node state w =
           (Inr (state\<lparr>remediation_suggestions :=
                   Some (case llm w \<lparr>system_message = remediation_system,
                                      human_message = text\<rparr> of
                           Inr suggestions \<Rightarrow> suggestions
                         | Inl e \<Rightarrow> ''Error generating suggestions: '' @ exn_str e)\<rparr>),
            w\<lparr>calls := calls w @
                 [ChatInvoke \<lparr>system_message = remediation_system, human_message = text\<rparr>]\<rparr>)"
  using assms by (simp add: suggest_remediation_node_def chain_invoke_def split: sum.splits)

lemma remediate_unfilled:
  assumes "verification_result state = Some vr" and "\<not> valid vr"
    and "prompt_template w (remediation_text vr) = Unfilled e"
  shows "suggest_remediation_node state w =
           (Inr (state\<lparr>remediation_suggestions :=
                   Some (''Error generating suggestions: '' @ exn_str e)\<rparr>), w)"
  using assms by (simp add: suggest_remediation_node_def)

lemma remediate_rejected:
  assumes "verification_result state = Some vr" and "\<not> valid vr"
    and "prompt_template w (remediation_text vr) = Rejected e"
  shows "suggest_remediation_node state w = (Inl e, w)"
  using assms by (simp add: suggest_remediation_node_def)

lemma remediate_plain:
  assumes "verification_result state = Some vr" and "\<not> valid vr"
    and "\<not> has_brace (remediation_text vr)"
  shows "suggest_remediation_node state w =
           (Inr (state\<lparr>remediation_suggestions :=
                   Some (case llm w (remediation_prompt vr) of
                           Inr suggestions \<Rightarrow> suggestions
                         | Inl e \<Rightarrow> ''Error generating suggestions: '' @ exn_str e)\<rparr>),
            w\<lparr>calls := calls w @ [ChatInvoke (remediation_prompt vr)]\<rparr>)"
  using remediate_filled [OF assms(1,2) template_plain [OF assms(3)]]
  by (simp add: remediation_prompt_def)

lemma suggest_remediation_node_valid:
  assumes "verification_result state = Some vr" and "valid vr"
  shows "suggest_remediation_node state w =
           (Inr (state\<lparr>remediation_suggestions :=
                   Some ''Token is valid. No remediation needed.''\<rparr>), w)"
  using assms by (simp add: suggest_remediation_node_def)

lemma remediate_frame:
  assumes "suggest_remediation_node s w = (Inr s', w')"
  shows "token s' = token s" and "verification_result s' = verification_result s"
  using assms
  by (auto simp: suggest_remediation_node_def chain_invoke_def
      split: option.splits sum.splits if_splits template_result.splits)

text \<open>
  C10. On a missing or empty token the verifier node writes the result
  \<open>{valid: False, message: "No token provided.", status_code: 0}\<close>, without the key
  \<open>scopes\<close>, and returns with the world as it was: no external call is made. The status code
  0 is neither an HTTP status nor a negative sentinel.
\<close>

theorem no_token_guard:
  assumes "token state = None \<or> token state = Some []"
  shows "\<exists>r. call_github_verifier_node fmt state w =
               (Inr (state\<lparr>verification_result := Some r\<rparr>), w)
           \<and> r = \<lparr>valid = False, scopes = None, message = ''No token provided.'',
                   status_code = 0\<rparr>
           \<and> \<not> http_status (status_code r) \<and> \<not> negative_sentinel (status_code r)"
  using verifier_node_no_token [OF assms, of fmt w]
  by (simp add: no_token_result_def http_status_def negative_sentinel_def)

theorem no_token_guard_witness:
  "call_github_verifier_node demo_fmt (initial_state (Some []))
     (demo_world (Inl (OtherException ''not called'')) (Inr ''ok'')) =
   (Inr ((initial_state (Some []))\<lparr>verification_result :=
           Some \<lparr>valid = False, scopes = None, message = ''No token provided.'',
                 status_code = 0\<rparr>\<rparr>),
    demo_world (Inl (OtherException ''not called'')) (Inr ''ok''))"
proof -
  have "token (initial_state (Some [])) = None \<or> token (initial_state (Some [])) = Some []"
    by (simp add: initial_state_def)
  from no_token_guard [OF this] show ?thesis
    by auto
qed

section \<open>The run\<close>

lemma invoke_graph_shape:
  assumes "call_github_verifier_node fmt state w = (Inr s1, w1)"
  shows "invoke_graph fmt state w = rest_of_graph s1 w1"
  unfolding invoke_graph_def rest_of_graph_def assms by simp

lemma run_shape:
  "\<exists>vr w1. run fmt tok w =
             rest_of_graph ((initial_state tok)\<lparr>verification_result := Some vr\<rparr>) w1
     \<and> call_github_verifier_node fmt (initial_state tok) w =
               (Inr ((initial_state tok)\<lparr>verification_result := Some vr\<rparr>), w1)
     \<and> ((tok = None \<or> tok = Some []) \<and> vr = no_token_result \<and> w1 = w
        \<or> (\<exists>t. tok = Some t \<and> t \<noteq> []
               \<and> fst (verify_github_token_api fmt t w) = Inr vr
               \<and> w1 = w\<lparr>calls := calls w @ [HttpGet api_url (request_headers t)]\<rparr>))"
proof -
  obtain vr w1 where
    n: "call_github_verifier_node fmt (initial_state tok) w =
               (Inr ((initial_state tok)\<lparr>verification_result := Some vr\<rparr>), w1)"
    and c: "((token (initial_state tok) = None \<or> token (initial_state tok) = Some [])
               \<and> vr = no_token_result \<and> w1 = w
        \<or> (\<exists>t. token (initial_state tok) = Some t \<and> t \<noteq> []
               \<and> fst (verify_github_token_api fmt t w) = Inr vr
               \<and> w1 = w\<lparr>calls := calls w @ [HttpGet api_url (request_headers t)]\<rparr>))"
    using verifier_node_writes [of fmt "initial_state tok" w] by blast
  have t: "token (initial_state tok) = tok"
    by (simp add: initial_state_def)
  show ?thesis
    using invoke_graph_shape [OF n] n c unfolding t run_def by blast
qed

text \<open>On a valid result the rest of the graph is the analysis alone.\<close>

lemma rest_valid:
  assumes "verification_result s1 = Some vr" and "valid vr"
  shows "rest_of_graph s1 w1 = analyze_result_node s1 w1"
proof (cases "analyze_result_node s1 w1")
  case (Pair res w2)
  show ?thesis
  proof (cases res)
    case (Inl e)
    with Pair show ?thesis
      by (simp add: rest_of_graph_def)
  next
    case (Inr s2)
    with Pair have "verification_result s2 = Some vr"
      using analyze_frame(2) [of s1 w1 s2 w2] assms(1) by simp
    with Pair Inr assms(2) show ?thesis
      by (simp add: rest_of_graph_def decide_next_step_def)
  qed
qed

text \<open>On an invalid result it is the analysis and then the remediation.\<close>

lemma rest_invalid:
  assumes "verification_result s1 = Some vr" and "\<not> valid vr"
  shows "rest_of_graph s1 w1 =
           (case analyze_result_node s1 w1 of
              (Inl e, w2) \<Rightarrow> (Inl e, w2)
            | (Inr s2, w2) \<Rightarrow> suggest_remediation_node s2 w2)"
proof (cases "analyze_result_node s1 w1")
  case (Pair res w2)
  show ?thesis
  proof (cases res)
    case (Inl e)
    with Pair show ?thesis
      by (simp add: rest_of_graph_def)
  next
    case (Inr s2)
    with Pair have "verification_result s2 = Some vr"
      using analyze_frame(2) [of s1 w1 s2 w2] assms(1) by simp
    with Pair Inr assms(2) show ?thesis
      by (simp add: rest_of_graph_def decide_next_step_def)
  qed
qed

lemma rest_of_graph_fields:
  assumes "rest_of_graph s1 w1 = (Inr final, w')"
  shows "token final = token s1 \<and> verification_result final = verification_result s1"
proof (cases "analyze_result_node s1 w1")
  case (Pair res w2)
  show ?thesis
  proof (cases res)
    case (Inl e)
    with Pair assms show ?thesis
      by (simp add: rest_of_graph_def)
  next
    case (Inr s2)
    with Pair have a: "token s2 = token s1" "verification_result s2 = verification_result s1"
      using analyze_frame(1,2) [of s1 w1 s2 w2] by simp_all
    show ?thesis
    proof (cases "decide_next_step s2")
      case (Inl e)
      with Pair Inr assms show ?thesis
        by (simp add: rest_of_graph_def)
    next
      case branch: (Inr b)
      show ?thesis
      proof (cases "b = ''remediate''")
        case True
        with Pair Inr branch assms have "suggest_remediation_node s2 w2 = (Inr final, w')"
          by (simp add: rest_of_graph_def)
        from remediate_frame [OF this] a show ?thesis
          by simp
      next
        case False
        with Pair Inr branch assms have "final = s2"
          by (simp add: rest_of_graph_def)
        with a show ?thesis
          by simp
      qed
    qed
  qed
qed

lemma run_eval:
  "run fmt (Some []) w =
     rest_of_graph ((initial_state (Some []))\<lparr>verification_result := Some no_token_result\<rparr>) w"
  "run fmt None w =
     rest_of_graph ((initial_state None)\<lparr>verification_result := Some no_token_result\<rparr>) w"
  "t \<noteq> [] \<Longrightarrow> fst (verify_github_token_api fmt t w) = Inr vr \<Longrightarrow>
     run fmt (Some t) w =
       rest_of_graph ((initial_state (Some t))\<lparr>verification_result := Some vr\<rparr>)
         (w\<lparr>calls := calls w @ [HttpGet api_url (request_headers t)]\<rparr>)"
  using run_shape [of fmt "Some []" w] run_shape [of fmt None w] run_shape [of fmt "Some t" w]
  by auto

text \<open>The prompts of the result without a token, and of two more results, have no brace.\<close>

lemma no_token_texts:
  "\<not> has_brace (analysis_text no_token_result)"
  "\<not> has_brace (remediation_text no_token_result)"
  using str_int_no_brace [of 0]
  by (simp_all add: remediation_text_brace)
     (simp_all add: analysis_text_def no_token_result_def has_brace_def py_str_bool_def
      py_str_scopes_def)

lemma bad_credentials_texts:
  "\<not> has_brace (analysis_text
      \<lparr>valid = False, scopes = Some [],
       message = ''Token is invalid or expired: Bad credentials'', status_code = 401\<rparr>)"
  "\<not> has_brace (remediation_text
      \<lparr>valid = False, scopes = Some [],
       message = ''Token is invalid or expired: Bad credentials'', status_code = 401\<rparr>)"
  "\<not> has_brace (app_analysis_text (Some
      \<lparr>valid = False, scopes = Some [],
       message = ''Token is invalid or expired: Bad credentials'', status_code = 401\<rparr>))"
  using str_int_no_brace [of 401]
  by (simp_all add: remediation_text_brace)
     (simp_all add: analysis_text_def app_analysis_text_def has_brace_def py_str_bool_def
      py_str_scopes_def py_str_list_def)

lemma valid_scopes_text:
  "\<not> has_brace (analysis_text
      \<lparr>valid = True, scopes = Some [''repo'', ''read:org''],
       message = ''Token is valid.'', status_code = 200\<rparr>)"
  using str_int_no_brace [of 200]
  by (simp add: analysis_text_def)
     (simp add: has_brace_def py_str_bool_def py_str_scopes_def py_str_list_def
      py_repr_str_def repr_char_def py_printable_def Let_def)

lemma template_cong: "templates w' = templates w \<Longrightarrow> prompt_template w' text = prompt_template w text"
  by (simp add: prompt_template_def)

lemma rest_plain_invalid:
  assumes "verification_result s1 = Some vr" and "\<not> valid vr"
    and "\<not> has_brace (analysis_text vr)" and "\<not> has_brace (remediation_text vr)"
  shows "rest_of_graph s1 w1 =
           (Inr (s1\<lparr>analysis_message :=
                     Some (case llm w1 (analysis_prompt vr) of
                             Inr analysis \<Rightarrow> analysis
                           | Inl e \<Rightarrow> ''Error during analysis: '' @ exn_str e),
                   remediation_suggestions :=
                     Some (case llm w1 (remediation_prompt vr) of
                             Inr suggestions \<Rightarrow> suggestions
                           | Inl e \<Rightarrow> ''Error generating suggestions: '' @ exn_str e)\<rparr>),
            w1\<lparr>calls := calls w1 @ [ChatInvoke (analysis_prompt vr),
                                     ChatInvoke (remediation_prompt vr)]\<rparr>)"
  unfolding rest_invalid [OF assms(1,2)] analyze_plain [OF assms(1,3)]
  using assms(1,2,4) by (simp add: remediate_plain)

lemma rest_plain_valid:
  assumes "verification_result s1 = Some vr" and "valid vr"
    and "\<not> has_brace (analysis_text vr)"
  shows "rest_of_graph s1 w1 =
           (Inr (s1\<lparr>analysis_message :=
                     Some (case llm w1 (analysis_prompt vr) of
                             Inr analysis \<Rightarrow> analysis
                           | Inl e \<Rightarrow> ''Error during analysis: '' @ exn_str e)\<rparr>),
            w1\<lparr>calls := calls w1 @ [ChatInvoke (analysis_prompt vr)]\<rparr>)"
  unfolding rest_valid [OF assms(1,2)] by (rule analyze_plain [OF assms(1,3)])

lemma run_ok_demo:
  "run demo_fmt (Some ''ghp_x'') (demo_world (Inr (ok_response ''repo, read:org'')) reply) =
     rest_of_graph
       ((initial_state (Some ''ghp_x''))\<lparr>verification_result :=
          Some \<lparr>valid = True, scopes = Some [''repo'', ''read:org''],
                message = ''Token is valid.'', status_code = 200\<rparr>\<rparr>)
       ((demo_world (Inr (ok_response ''repo, read:org'')) reply)
          \<lparr>calls := [HttpGet api_url (request_headers ''ghp_x'')]\<rparr>)"
  using run_eval(3) [OF _ verify_ok_demo, of reply] by simp

lemma run_401_demo:
  "run demo_fmt (Some ''ghp_x'') (demo_world (Inr (json_response 401 ''Bad credentials'')) reply) =
     rest_of_graph
       ((initial_state (Some ''ghp_x''))\<lparr>verification_result :=
          Some \<lparr>valid = False, scopes = Some [],
                message = ''Token is invalid or expired: Bad credentials'',
                status_code = 401\<rparr>\<rparr>)
       ((demo_world (Inr (json_response 401 ''Bad credentials'')) reply)
          \<lparr>calls := [HttpGet api_url (request_headers ''ghp_x'')]\<rparr>)"
  using run_eval(3) [OF _ verify_401_demo, of reply] by simp

text \<open>
  C2, as amended. For every missing or empty token given to \<open>run\<close>, the GitHub API is not
  called: the run enters the verifier node, whose guard writes the result
  \<open>{valid: False, message: "No token provided.", status_code: 0}\<close>; the run then goes on
  through the analysis and the remediation, which call the chat model, and returns the
  state.
\<close>

theorem run_without_token:
  assumes "tok = None \<or> tok = Some []"
  shows "\<exists>final w'. run fmt tok w = (Inr final, w')
           \<and> verification_result final =
               Some \<lparr>valid = False, scopes = None, message = ''No token provided.'',
                     status_code = 0\<rparr>
           \<and> calls w' = calls w @ [ChatInvoke (analysis_prompt no_token_result),
                                   ChatInvoke (remediation_prompt no_token_result)]"
proof -
  obtain vr w1 where
    r: "run fmt tok w =
          rest_of_graph ((initial_state tok)\<lparr>verification_result := Some vr\<rparr>) w1"
    and c: "((tok = None \<or> tok = Some []) \<and> vr = no_token_result \<and> w1 = w
        \<or> (\<exists>t. tok = Some t \<and> t \<noteq> []
               \<and> fst (verify_github_token_api fmt t w) = Inr vr
               \<and> w1 = w\<lparr>calls := calls w @ [HttpGet api_url (request_headers t)]\<rparr>))"
    using run_shape [of fmt tok w] by blast
  from c assms have v: "vr = no_token_result" and w: "w1 = w"
    by auto
  have nv: "\<not> valid no_token_result"
    by (simp add: no_token_result_def)
  have s: "verification_result ((initial_state tok)\<lparr>verification_result := Some no_token_result\<rparr>)
             = Some no_token_result"
    by simp
  have "run fmt tok w =
          rest_of_graph ((initial_state tok)\<lparr>verification_result := Some no_token_result\<rparr>) w"
    using r v w by simp
  from trans [OF this rest_plain_invalid [OF s nv no_token_texts]] show ?thesis
    by (simp add: no_token_result_def)
qed

theorem run_without_token_witness:
  "\<exists>final w'. run demo_fmt None
                  (demo_world (Inl (OtherException ''not called'')) (Inr ''Provide a token.''))
                = (Inr final, w')
      \<and> verification_result final =
            Some \<lparr>valid = False, scopes = None, message = ''No token provided.'',
                  status_code = 0\<rparr>
      \<and> calls w' = [ChatInvoke (analysis_prompt no_token_result),
                    ChatInvoke (remediation_prompt no_token_result)]"
  using run_without_token [of None demo_fmt
      "demo_world (Inl (OtherException ''not called'')) (Inr ''Provide a token.'')"]
  by simp

text \<open>
  The claim as stated fails on the empty token: the run returns a state, not an input
  error, after the verifier node has run and the chat model has been called twice.
\<close>

theorem empty_token_counterexample:
  "fst (run demo_fmt (Some [])
          (demo_world (Inl (OtherException ''not called'')) (Inr ''Provide a token.''))) =
     Inr \<lparr>token = Some [],
          verification_result =
            Some \<lparr>valid = False, scopes = None, message = ''No token provided.'',
                  status_code = 0\<rparr>,
          analysis_message = Some ''Provide a token.'',
          remediation_suggestions = Some ''Provide a token.''\<rparr>
   \<and> calls (snd (run demo_fmt (Some [])
          (demo_world (Inl (OtherException ''not called'')) (Inr ''Provide a token.'')))) =
     [ChatInvoke (analysis_prompt no_token_result),
      ChatInvoke (remediation_prompt no_token_result)]"
proof -
  have nv: "\<not> valid no_token_result"
    by (simp add: no_token_result_def)
  have s: "verification_result
             ((initial_state (Some []))\<lparr>verification_result := Some no_token_result\<rparr>)
             = Some no_token_result"
    by simp
  from trans [OF run_eval(1) rest_plain_invalid [OF s nv no_token_texts]] show ?thesis
    by (simp add: initial_state_def no_token_result_def)
qed

text \<open>
  C3, as amended. For every run that returns a state whose verification result is valid,
  the remediation step is skipped: the only calls are the request to the GitHub API and,
  when the template of the analysis prompt is built and filled, the analysis prompt; the
  remediation delegate is never invoked, and \<open>remediation_suggestions\<close> stays unset. The
  fixed string "Token is valid. No remediation needed." is what \<open>suggest_remediation_node\<close>
  writes, without a call, when it is run on a valid result.
\<close>

theorem valid_run_skips_remediation:
  assumes "run fmt tok w = (Inr final, w')"
    and "verification_result final = Some vr" and "valid vr"
  shows "remediation_suggestions final = None
       \<and> (\<exists>t. tok = Some t
              \<and> (case prompt_template w (analysis_text vr) of
                   Filled text \<Rightarrow>
                     calls w' = calls w @
                       [HttpGet api_url (request_headers t),
                        ChatInvoke \<lparr>system_message = analysis_system, human_message = text\<rparr>]
                 | Unfilled e \<Rightarrow> calls w' = calls w @ [HttpGet api_url (request_headers t)]
                 | Rejected e \<Rightarrow> False))
       \<and> suggest_remediation_node final w' =
           (Inr (final\<lparr>remediation_suggestions :=
                   Some ''Token is valid. No remediation needed.''\<rparr>), w')"
proof -
  obtain vr' w1 where
    r: "run fmt tok w =
          rest_of_graph ((initial_state tok)\<lparr>verification_result := Some vr'\<rparr>) w1"
    and c: "((tok = None \<or> tok = Some []) \<and> vr' = no_token_result \<and> w1 = w
        \<or> (\<exists>t. tok = Some t \<and> t \<noteq> []
               \<and> fst (verify_github_token_api fmt t w) = Inr vr'
               \<and> w1 = w\<lparr>calls := calls w @ [HttpGet api_url (request_headers t)]\<rparr>))"
    using run_shape [of fmt tok w] by blast
  let ?s1 = "(initial_state tok)\<lparr>verification_result := Some vr'\<rparr>"
  have f: "rest_of_graph ?s1 w1 = (Inr final, w')"
    using r assms(1) by simp
  have "verification_result final = Some vr'"
    using rest_of_graph_fields [OF f] by simp
  with assms(2) have e: "vr' = vr"
    by simp
  have nv: "\<not> valid no_token_result"
    by (simp add: no_token_result_def)
  from c e assms(3) nv obtain t where t: "tok = Some t"
    and w1: "w1 = w\<lparr>calls := calls w @ [HttpGet api_url (request_headers t)]\<rparr>"
    by auto
  have s: "verification_result ?s1 = Some vr"
    using e by simp
  have a: "analyze_result_node ?s1 w1 = (Inr final, w')"
    using f unfolding rest_valid [OF s assms(3)] .
  have p: "prompt_template w1 (analysis_text vr) = prompt_template w (analysis_text vr)"
    unfolding w1 by simp
  have 1: "remediation_suggestions final = None"
    using analyze_frame(3) [OF a] by (simp add: initial_state_def)
  have 2: "(case prompt_template w (analysis_text vr) of
              Filled text \<Rightarrow>
                calls w' = calls w @
                  [HttpGet api_url (request_headers t),
                   ChatInvoke \<lparr>system_message = analysis_system, human_message = text\<rparr>]
            | Unfilled e \<Rightarrow> calls w' = calls w @ [HttpGet api_url (request_headers t)]
            | Rejected e \<Rightarrow> False)"
  proof (cases "prompt_template w (analysis_text vr)")
    case (Rejected x)
    with a analyze_rejected [OF s, of w1 x] p show ?thesis
      by simp
  next
    case (Unfilled x)
    with a analyze_unfilled [OF s, of w1 x] p show ?thesis
      by (auto simp: w1)
  next
    case (Filled body)
    with a analyze_filled [OF s, of w1 body] p show ?thesis
      by (auto simp: w1)
  qed
  have 3: "suggest_remediation_node final w' =
           (Inr (final\<lparr>remediation_suggestions :=
                   Some ''Token is valid. No remediation needed.''\<rparr>), w')"
    by (rule suggest_remediation_node_valid [OF assms(2,3)])
  from 1 2 3 t show ?thesis
    by blast
qed

theorem valid_run_skips_remediation_witness:
  "\<exists>final w'. run demo_fmt (Some ''ghp_x'')
          (demo_world (Inr (ok_response ''repo, read:org'')) (Inr ''The token is valid.''))
          = (Inr final, w')
     \<and> remediation_suggestions final = None
     \<and> calls w' = [HttpGet api_url (request_headers ''ghp_x''),
                   ChatInvoke (analysis_prompt
                     \<lparr>valid = True, scopes = Some [''repo'', ''read:org''],
                      message = ''Token is valid.'', status_code = 200\<rparr>)]"
proof -
  let ?w = "demo_world (Inr (ok_response ''repo, read:org'')) (Inr ''The token is valid.'')"
  let ?vr = "\<lparr>valid = True, scopes = Some [''repo'', ''read:org''],
                  message = ''Token is valid.'', status_code = 200\<rparr>"
  have s: "verification_result
             ((initial_state (Some ''ghp_x''))\<lparr>verification_result := Some ?vr\<rparr>) = Some ?vr"
    by simp
  have v: "valid ?vr"
    by simp
  obtain final w' where r: "run demo_fmt (Some ''ghp_x'') ?w = (Inr final, w')"
    and vf: "verification_result final = Some ?vr"
    using trans [OF run_ok_demo rest_plain_valid [OF s v valid_scopes_text]]
    by simp
  from valid_run_skips_remediation [OF r vf v] r template_plain [OF valid_scopes_text, of ?w]
  show ?thesis
    by (simp add: analysis_prompt_def)
qed

text \<open>
  The claim as stated fails on a valid token: the returned state has no remediation
  suggestions, not the fixed string.
\<close>

theorem valid_run_counterexample:
  "fst (run demo_fmt (Some ''ghp_x'')
          (demo_world (Inr (ok_response ''repo, read:org'')) (Inr ''The token is valid.''))) =
     Inr \<lparr>token = Some ''ghp_x'',
          verification_result =
            Some \<lparr>valid = True, scopes = Some [''repo'', ''read:org''],
                  message = ''Token is valid.'', status_code = 200\<rparr>,
          analysis_message = Some ''The token is valid.'',
          remediation_suggestions = None\<rparr>"
proof -
  let ?vr = "\<lparr>valid = True, scopes = Some [''repo'', ''read:org''],
                  message = ''Token is valid.'', status_code = 200\<rparr>"
  have s: "verification_result
             ((initial_state (Some ''ghp_x''))\<lparr>verification_result := Some ?vr\<rparr>) = Some ?vr"
    by simp
  have v: "valid ?vr"
    by simp
  show ?thesis
    using trans [OF run_ok_demo rest_plain_valid [OF s v valid_scopes_text]]
    by (simp add: initial_state_def)
qed

text \<open>
  C5, as amended. For every run that returns a state whose verification result is not
  valid, the orchestrator takes the branch to the remediation step. When the message of
  the result has no brace, the remediation delegate is invoked (it is the last call of the
  run) and \<open>remediation_suggestions\<close> is the text that the delegate returns, or the text
  "Error generating suggestions: " followed by the error when the delegate fails; it is
  empty only when the delegate itself returns the empty text. With a brace in the message
  the same holds of the filled text when the template is built and filled, and when it
  cannot be filled the error text is stored.
\<close>

theorem invalid_run_remediates:
  assumes "run fmt tok w = (Inr final, w')"
    and "verification_result final = Some vr" and "\<not> valid vr"
  shows "decide_next_step final = Inr ''remediate''
       \<and> (case prompt_template w (remediation_text vr) of
            Filled text \<Rightarrow>
              (\<exists>cs. calls w' = cs @
                 [ChatInvoke \<lparr>system_message = remediation_system, human_message = text\<rparr>])
              \<and> remediation_suggestions final =
                  Some (case llm w \<lparr>system_message = remediation_system,
                                     human_message = text\<rparr> of
                          Inr suggestions \<Rightarrow> suggestions
                        | Inl e \<Rightarrow> ''Error generating suggestions: '' @ exn_str e)
          | Unfilled e \<Rightarrow>
              remediation_suggestions final =
                Some (''Error generating suggestions: '' @ exn_str e)
          | Rejected e \<Rightarrow> False)
       \<and> (\<not> has_brace (message vr) \<longrightarrow>
            (\<exists>cs. calls w' = cs @ [ChatInvoke (remediation_prompt vr)])
            \<and> remediation_suggestions final =
                Some (case llm w (remediation_prompt vr) of
                        Inr suggestions \<Rightarrow> suggestions
                      | Inl e \<Rightarrow> ''Error generating suggestions: '' @ exn_str e)
            \<and> (remediation_suggestions final = Some [] \<longrightarrow>
                 llm w (remediation_prompt vr) = Inr []))"
proof -
  obtain vr' w1 where
    r: "run fmt tok w =
          rest_of_graph ((initial_state tok)\<lparr>verification_result := Some vr'\<rparr>) w1"
    and c: "((tok = None \<or> tok = Some []) \<and> vr' = no_token_result \<and> w1 = w
        \<or> (\<exists>t. tok = Some t \<and> t \<noteq> []
               \<and> fst (verify_github_token_api fmt t w) = Inr vr'
               \<and> w1 = w\<lparr>calls := calls w @ [HttpGet api_url (request_headers t)]\<rparr>))"
    using run_shape [of fmt tok w] by blast
  let ?s1 = "(initial_state tok)\<lparr>verification_result := Some vr'\<rparr>"
  let ?sys = "remediation_system"
  from c have l1: "llm w1 = llm w" and t1: "templates w1 = templates w"
    by auto
  have f: "rest_of_graph ?s1 w1 = (Inr final, w')"
    using r assms(1) by simp
  have "verification_result final = Some vr'"
    using rest_of_graph_fields [OF f] by simp
  with assms(2) have e: "vr' = vr"
    by simp
  have s: "verification_result ?s1 = Some vr"
    using e by simp
  have g: "(case analyze_result_node ?s1 w1 of
              (Inl e, w2) \<Rightarrow> (Inl e, w2)
            | (Inr s2, w2) \<Rightarrow> suggest_remediation_node s2 w2) = (Inr final, w')"
    using f unfolding rest_invalid [OF s assms(3)] .
  obtain res w2 where pa: "analyze_result_node ?s1 w1 = (res, w2)"
    by (metis surj_pair)
  obtain s2 where a: "analyze_result_node ?s1 w1 = (Inr s2, w2)"
    and m: "suggest_remediation_node s2 w2 = (Inr final, w')"
  proof (cases res)
    case (Inl x)
    with g pa show ?thesis
      by simp
  next
    case (Inr x)
    with g pa that show ?thesis
      by simp
  qed
  have s2: "verification_result s2 = Some vr"
    using analyze_frame(2) [OF a] s by simp
  have l2: "llm w2 = llm w"
    using analyze_frame(4) [OF a] l1 by simp
  have "templates w2 = templates w"
    using analyze_frame(5) [OF a] t1 by simp
  then have p: "prompt_template w2 (remediation_text vr) = prompt_template w (remediation_text vr)"
    by (rule template_cong)
  have 1: "decide_next_step final = Inr ''remediate''"
    using assms(2,3) by (simp add: decide_next_step_def)
  have 2: "(case prompt_template w (remediation_text vr) of
            Filled text \<Rightarrow>
              (\<exists>cs. calls w' = cs @
                 [ChatInvoke \<lparr>system_message = remediation_system, human_message = text\<rparr>])
              \<and> remediation_suggestions final =
                  Some (case llm w \<lparr>system_message = remediation_system,
                                     human_message = text\<rparr> of
                          Inr suggestions \<Rightarrow> suggestions
                        | Inl e \<Rightarrow> ''Error generating suggestions: '' @ exn_str e)
          | Unfilled e \<Rightarrow>
              remediation_suggestions final =
                Some (''Error generating suggestions: '' @ exn_str e)
          | Rejected e \<Rightarrow> False)"
  proof (cases "prompt_template w (remediation_text vr)")
    case (Rejected x)
    then have "prompt_template w2 (remediation_text vr) = Rejected x"
      using p by simp
    from remediate_rejected [OF s2 assms(3) this] m show ?thesis
      by simp
  next
    case (Unfilled x)
    then have "prompt_template w2 (remediation_text vr) = Unfilled x"
      using p by simp
    from remediate_unfilled [OF s2 assms(3) this] m
    have "final = s2\<lparr>remediation_suggestions :=
                      Some (''Error generating suggestions: '' @ exn_str x)\<rparr>"
      by simp
    with Unfilled show ?thesis
      by simp
  next
    case (Filled body)
    then have "prompt_template w2 (remediation_text vr) = Filled body"
      using p by simp
    from remediate_filled [OF s2 assms(3) this] m
    have fe: "final = s2\<lparr>remediation_suggestions :=
                   Some (case llm w2 \<lparr>system_message = ?sys, human_message = body\<rparr> of
                           Inr suggestions \<Rightarrow> suggestions
                         | Inl e \<Rightarrow> ''Error generating suggestions: '' @ exn_str e)\<rparr>"
      and we: "w' = w2\<lparr>calls := calls w2 @
                 [ChatInvoke \<lparr>system_message = ?sys, human_message = body\<rparr>]\<rparr>"
      by simp_all
    have "calls w' = calls w2 @ [ChatInvoke \<lparr>system_message = ?sys, human_message = body\<rparr>]"
      unfolding we by simp
    moreover have "remediation_suggestions final =
        Some (case llm w \<lparr>system_message = ?sys, human_message = body\<rparr> of
                Inr suggestions \<Rightarrow> suggestions
              | Inl e \<Rightarrow> ''Error generating suggestions: '' @ exn_str e)"
      unfolding fe l2 by simp
    ultimately show ?thesis
      using Filled by simp
  qed
  have 3: "\<not> has_brace (message vr) \<longrightarrow>
            (\<exists>cs. calls w' = cs @ [ChatInvoke (remediation_prompt vr)])
            \<and> remediation_suggestions final =
                Some (case llm w (remediation_prompt vr) of
                        Inr suggestions \<Rightarrow> suggestions
                      | Inl e \<Rightarrow> ''Error generating suggestions: '' @ exn_str e)
            \<and> (remediation_suggestions final = Some [] \<longrightarrow>
                 llm w (remediation_prompt vr) = Inr [])"
  proof
    assume "\<not> has_brace (message vr)"
    then have "prompt_template w (remediation_text vr) = Filled (remediation_text vr)"
      by (simp add: template_plain remediation_text_brace)
    with 2 have c1: "\<exists>cs. calls w' = cs @ [ChatInvoke (remediation_prompt vr)]"
      and c2: "remediation_suggestions final =
                Some (case llm w (remediation_prompt vr) of
                        Inr suggestions \<Rightarrow> suggestions
                      | Inl e \<Rightarrow> ''Error generating suggestions: '' @ exn_str e)"
      by (simp_all add: remediation_prompt_def)
    have c3: "remediation_suggestions final = Some [] \<longrightarrow>
                llm w (remediation_prompt vr) = Inr []"
      unfolding c2 by (cases "llm w (remediation_prompt vr)") simp_all
    from c1 c2 c3
    show "(\<exists>cs. calls w' = cs @ [ChatInvoke (remediation_prompt vr)])
            \<and> remediation_suggestions final =
                Some (case llm w (remediation_prompt vr) of
                        Inr suggestions \<Rightarrow> suggestions
                      | Inl e \<Rightarrow> ''Error generating suggestions: '' @ exn_str e)
            \<and> (remediation_suggestions final = Some [] \<longrightarrow>
                 llm w (remediation_prompt vr) = Inr [])"
      by blast
  qed
  from 1 2 3 show ?thesis
    by blast
qed

theorem invalid_run_remediates_witness:
  "\<exists>final w'. run demo_fmt (Some ''ghp_x'')
          (demo_world (Inr (json_response 401 ''Bad credentials''))
             (Inl (OtherException ''Connection error.'')))
          = (Inr final, w')
     \<and> decide_next_step final = Inr ''remediate''
     \<and> remediation_suggestions final =
         Some ''Error generating suggestions: Connection error.''
     \<and> (\<exists>cs. calls w' = cs @ [ChatInvoke (remediation_prompt
                     \<lparr>valid = False, scopes = Some [],
                      message = ''Token is invalid or expired: Bad credentials'',
                      status_code = 401\<rparr>)])"
proof -
  let ?w = "demo_world (Inr (json_response 401 ''Bad credentials''))
             (Inl (OtherException ''Connection error.''))"
  let ?vr = "\<lparr>valid = False, scopes = Some [],
                  message = ''Token is invalid or expired: Bad credentials'',
                  status_code = 401\<rparr>"
  have s: "verification_result
             ((initial_state (Some ''ghp_x''))\<lparr>verification_result := Some ?vr\<rparr>) = Some ?vr"
    by simp
  have v: "\<not> valid ?vr"
    by simp
  have b: "\<not> has_brace (message ?vr)"
    using bad_credentials_texts(2) by (simp add: remediation_text_brace)
  obtain final w' where r: "run demo_fmt (Some ''ghp_x'') ?w = (Inr final, w')"
    and vf: "verification_result final = Some ?vr"
    using trans [OF run_401_demo rest_plain_invalid [OF s v bad_credentials_texts(1,2)]]
    by simp
  from invalid_run_remediates [OF r vf v] b r show ?thesis
    by simp
qed

text \<open>
  The claim as stated fails when the delegate returns the empty text: the remediation
  suggestions of the returned state are the empty string.
\<close>

theorem empty_suggestions_counterexample:
  "fst (run demo_fmt (Some ''ghp_x'')
          (demo_world (Inr (json_response 401 ''Bad credentials'')) (Inr []))) =
     Inr \<lparr>token = Some ''ghp_x'',
          verification_result =
            Some \<lparr>valid = False, scopes = Some [],
                  message = ''Token is invalid or expired: Bad credentials'',
                  status_code = 401\<rparr>,
          analysis_message = Some [],
          remediation_suggestions = Some []\<rparr>"
proof -
  let ?vr = "\<lparr>valid = False, scopes = Some [],
                  message = ''Token is invalid or expired: Bad credentials'',
                  status_code = 401\<rparr>"
  have s: "verification_result
             ((initial_state (Some ''ghp_x''))\<lparr>verification_result := Some ?vr\<rparr>) = Some ?vr"
    by simp
  have v: "\<not> valid ?vr"
    by simp
  show ?thesis
    using trans [OF run_401_demo rest_plain_invalid [OF s v bad_credentials_texts(1,2)]]
    by (simp add: initial_state_def)
qed

text \<open>
  C8. No node changes the token: the state that the verifier node, the analyzer node or
  the remediation node returns has the token it was given, and the analyzer and the
  remediation node return the verification result they were given. Every state that a run
  returns has the token passed to \<open>run\<close> and the verification result that the verifier node
  wrote.
\<close>

theorem token_and_result_frame:
  "(\<forall>s' w'. call_github_verifier_node fmt s w = (Inr s', w') \<longrightarrow> token s' = token s)
   \<and> (\<forall>s' w'. analyze_result_node s w = (Inr s', w') \<longrightarrow>
        token s' = token s \<and> verification_result s' = verification_result s)
   \<and> (\<forall>s' w'. suggest_remediation_node s w = (Inr s', w') \<longrightarrow>
        token s' = token s \<and> verification_result s' = verification_result s)
   \<and> (\<forall>final w'. run fmt tok w = (Inr final, w') \<longrightarrow>
        token final = tok
        \<and> (\<exists>s1 w1. call_github_verifier_node fmt (initial_state tok) w = (Inr s1, w1)
                   \<and> verification_result final = verification_result s1))"
proof -
  have 1: "\<forall>s' w'. call_github_verifier_node fmt s w = (Inr s', w') \<longrightarrow> token s' = token s"
    using verifier_node_writes [of fmt s w] by auto
  have 2: "\<forall>s' w'. analyze_result_node s w = (Inr s', w') \<longrightarrow>
        token s' = token s \<and> verification_result s' = verification_result s"
    using analyze_frame(1,2) by blast
  have 3: "\<forall>s' w'. suggest_remediation_node s w = (Inr s', w') \<longrightarrow>
        token s' = token s \<and> verification_result s' = verification_result s"
    using remediate_frame by blast
  obtain vr w1 where
    r: "run fmt tok w =
          rest_of_graph ((initial_state tok)\<lparr>verification_result := Some vr\<rparr>) w1"
    and n: "call_github_verifier_node fmt (initial_state tok) w =
               (Inr ((initial_state tok)\<lparr>verification_result := Some vr\<rparr>), w1)"
    using run_shape [of fmt tok w] by blast
  have 4: "\<forall>final w'. run fmt tok w = (Inr final, w') \<longrightarrow>
        token final = tok
        \<and> (\<exists>s1 w1. call_github_verifier_node fmt (initial_state tok) w = (Inr s1, w1)
                   \<and> verification_result final = verification_result s1)"
  proof (intro allI impI)
    fix final w'
    assume "run fmt tok w = (Inr final, w')"
    with r have f: "rest_of_graph ((initial_state tok)\<lparr>verification_result := Some vr\<rparr>) w1
                      = (Inr final, w')"
      by simp
    have "token final = tok \<and> verification_result final = Some vr"
      using rest_of_graph_fields [OF f] by (simp add: initial_state_def)
    with n show "token final = tok
        \<and> (\<exists>s1 w1. call_github_verifier_node fmt (initial_state tok) w = (Inr s1, w1)
                   \<and> verification_result final = verification_result s1)"
      by auto
  qed
  from 1 2 3 4 show ?thesis
    by blast
qed

theorem token_and_result_frame_witness:
  "\<exists>final w'. run demo_fmt (Some ''ghp_x'')
          (demo_world (Inr (json_response 401 ''Bad credentials'')) (Inr ''Renew the token.''))
          = (Inr final, w')
     \<and> token final = Some ''ghp_x''
     \<and> verification_result final =
         Some \<lparr>valid = False, scopes = Some [],
               message = ''Token is invalid or expired: Bad credentials'',
               status_code = 401\<rparr>"
proof -
  let ?w = "demo_world (Inr (json_response 401 ''Bad credentials'')) (Inr ''Renew the token.'')"
  let ?vr = "\<lparr>valid = False, scopes = Some [],
                  message = ''Token is invalid or expired: Bad credentials'',
                  status_code = 401\<rparr>"
  have s: "verification_result
             ((initial_state (Some ''ghp_x''))\<lparr>verification_result := Some ?vr\<rparr>) = Some ?vr"
    by simp
  have v: "\<not> valid ?vr"
    by simp
  obtain final w' where r: "run demo_fmt (Some ''ghp_x'') ?w = (Inr final, w')"
    using trans [OF run_401_demo rest_plain_invalid [OF s v bad_credentials_texts(1,2)]]
    by simp
  from token_and_result_frame [of demo_fmt _ ?w "Some ''ghp_x''"] r
  obtain s1 w1 where t: "token final = Some ''ghp_x''"
    and n: "call_github_verifier_node demo_fmt (initial_state (Some ''ghp_x'')) ?w = (Inr s1, w1)"
    and vf: "verification_result final = verification_result s1"
    by blast
  have "verification_result s1 = Some ?vr"
    using n verifier_node_token [of "initial_state (Some ''ghp_x'')" "''ghp_x''" demo_fmt ?w]
    by (auto simp: initial_state_def verify_401_demo)
  with r t vf show ?thesis
    by simp
qed

text \<open>
  A run does not always return. When the library rejects the template of the analysis
  prompt, the exception leaves the analyzer node and the run; when it rejects the template
  of the remediation prompt, the exception leaves the remediation node and the run.
\<close>

lemma rejected_template_raises:
  assumes "t \<noteq> []" and "fst (verify_github_token_api fmt t w) = Inr vr"
    and "prompt_template w (analysis_text vr) = Rejected e"
  shows "fst (run fmt (Some t) w) = Inl e"
proof -
  let ?s1 = "(initial_state (Some t))\<lparr>verification_result := Some vr\<rparr>"
  let ?w1 = "w\<lparr>calls := calls w @ [HttpGet api_url (request_headers t)]\<rparr>"
  have s: "verification_result ?s1 = Some vr"
    by simp
  have "analyze_result_node ?s1 ?w1 = (Inl e, ?w1)"
    using analyze_rejected [OF s, of ?w1 e] assms(3) by simp
  then show ?thesis
    unfolding run_eval(3) [OF assms(1,2)] by (simp add: rest_of_graph_def)
qed

text \<open>
  In the demo world, a 401 response whose message ends in an opening brace: the template
  of the analysis prompt is rejected and the run raises.
\<close>

lemma unmatched_brace_example:
  "\<exists>m. fst (run demo_fmt (Some ''ghp_x'')
               (demo_world (Inr (json_response 401 (''Bad '' @ [CHR 0x7B]))) (Inr ''ok''))) =
          Inl (ValueError m)"
proof -
  let ?w = "demo_world (Inr (json_response 401 (''Bad '' @ [CHR 0x7B]))) (Inr ''ok'')"
  let ?vr = "\<lparr>valid = False, scopes = Some [],
              message = ''Token is invalid or expired: Bad '' @ [CHR 0x7B],
              status_code = 401\<rparr>"
  have v: "fst (verify_github_token_api demo_fmt ''ghp_x'' ?w) = Inr ?vr"
    by (simp add: verify_unfold)
  have "analysis_text ?vr =
          ''GitHub Token Verification Result:\<newline>Valid: False\<newline>Message: ''
          @ ''Token is invalid or expired: Bad '' @ [CHR 0x7B]
          @ ''\<newline>Scopes: []'' @ ''\<newline>Status Code: '' @ str_int 401"
    by (simp add: analysis_text_def py_str_bool_def py_str_scopes_def py_str_list_def)
  moreover have "str_int 401 = ''401''"
    by code_simp
  ultimately have "prompt_template ?w (analysis_text ?vr) =
          Rejected (ValueError ''brace without its partner in format string'')"
    by (simp add: prompt_template_def has_brace_def demo_world_def transport_world_def
        demo_templates_def)
  from rejected_template_raises [OF _ v this] show ?thesis
    by simp
qed

section \<open>The two analyzers\<close>

text \<open>
  C6. The analyzer of the specification never lets a failure of the chat model out. The
  analyzer node of graph\_nodes.py does that (\<open>analyze_result_node_absorbs\<close>); the
  analyzer of app.py has no handler: on the same result and the same failing chat model,
  the exception leaves \<open>analyze_verification_result\<close>, while \<open>analyze_result_node\<close> returns
  the state with the error text in \<open>analysis_message\<close>.
\<close>

theorem app_analyzer_propagates:
  "fst (analyze_verification_result
          \<lparr>app_token = ''ghp_x'',
           app_verification_result =
             Some \<lparr>valid = False, scopes = Some [],
                   message = ''Token is invalid or expired: Bad credentials'',
                   status_code = 401\<rparr>,
           app_analysis_message = [], app_remediation_suggestions = []\<rparr>
          (demo_world (Inr (json_response 401 ''Bad credentials''))
             (Inl (OtherException ''Connection error.'')))) =
     Inl (OtherException ''Connection error.'')
   \<and> fst (analyze_result_node
          \<lparr>token = Some ''ghp_x'',
           verification_result =
             Some \<lparr>valid = False, scopes = Some [],
                   message = ''Token is invalid or expired: Bad credentials'',
                   status_code = 401\<rparr>,
           analysis_message = None, remediation_suggestions = None\<rparr>
          (demo_world (Inr (json_response 401 ''Bad credentials''))
             (Inl (OtherException ''Connection error.'')))) =
     Inr \<lparr>token = Some ''ghp_x'',
          verification_result =
             Some \<lparr>valid = False, scopes = Some [],
                   message = ''Token is invalid or expired: Bad credentials'',
                   status_code = 401\<rparr>,
          analysis_message = Some ''Error during analysis: Connection error.'',
          remediation_suggestions = None\<rparr>"
  using template_plain [OF bad_credentials_texts(3)]
  by (simp add: analyze_verification_result_def chain_invoke_def
      analyze_plain [OF _ bad_credentials_texts(1)])


end
